theory Spec2Isabelle
  imports Complex_Main
begin

section \<open>The Shamrock spectrograph driver (andorApp/src/shamrock.cpp)\<close>

text \<open>
  The driver is glue between two vendor SDKs (spectrograph and detector) and the host
  framework's parameter library. Neither is part of the repository, so both appear as
  explicit parameters of the model:
  \<^item> every SDK function the driver calls is a constructor of \<open>sdk_call\<close>; the device answers
    a call, given the calls made before it, through \<open>devReply\<close>, and the driver state keeps
    the log of calls made (\<open>sdkLog\<close>);
  \<^item> the status the host's parameter library returns for \<open>setIntegerParam\<close> and
    \<open>setDoubleParam\<close> is \<open>hostSet\<close>; the cached value is replaced when that status is
    \<open>asynSuccess\<close>;
  \<^item> \<open>callParamCallbacks\<close> and \<open>doCallbacksFloat32Array\<close> are events of the log
    \<open>published\<close>.
  C \<open>float\<close> and \<open>double\<close> values are only passed through, never computed with: both are
  \<open>real\<close>, the narrowing cast \<open>(float) value\<close> is the parameter \<open>toFloat\<close>. A C
  \<open>int\<close> is an \<open>int\<close>; the only arithmetic on one is a loop counter, \<open>i+1\<close>,
  \<open>addr+1\<close> on an address inside an array, and \<open>numPixels_-1\<close> as an index, and the
  conversion to \<open>size_t\<close> is written out. The trace output of \<open>asynPrint\<close> is not
  modelled.
\<close>

subsection \<open>Constants\<close>

definition MAX_SLITS :: nat where
  "MAX_SLITS = 4"

definition MAX_GRATINGS :: int where
  "MAX_GRATINGS = 3"

definition MAX_FLIPPER_MIRRORS :: nat where
  "MAX_FLIPPER_MIRRORS = 2"

definition MAX_ADDR :: nat where
  "MAX_ADDR = 4"

subsection \<open>Data\<close>

text \<open>The reason codes handed out by \<open>createParam\<close>; any other code is \<open>OtherParam n\<close>.\<close>

datatype param =
    SRWavelength
  | SRMinWavelength
  | SRMaxWavelength
  | SRCalibration
  | SRGrating
  | SRNumGratings
  | SRGratingExists
  | SRFlipperMirrorExists
  | SRFlipperMirrorPort
  | SRSlitExists
  | SRSlitSize
  | OtherParam int

datatype asynParamType = asynParamInt32 | asynParamFloat64 | asynParamFloat32Array

datatype asynStatus =
    asynSuccess
  | asynTimeout
  | asynOverflow
  | asynError
  | asynDisconnected
  | asynDisabled
  | asynParamAlreadyExists
  | asynParamNotFound
  | asynParamWrongType
  | asynParamBadIndex
  | asynParamUndefined

datatype pval = PInt int | PDouble real

text \<open>
  Reading or writing outside an array and overflowing a signed loop counter are undefined
  in C++; the model stops there.
\<close>

datatype fault = OutOfBounds | SignedOverflow

datatype sdk_call =
    ATSpectrographInitialize string
  | ATSpectrographGetNumberDevices
  | GetDetector
  | ATSpectrographSetNumberPixels int int
  | GetPixelSize
  | ATSpectrographSetPixelWidth int real
  | ATSpectrographGetNumberPixels int
  | ATSpectrographGetPixelWidth int
  | ATSpectrographSlitIsPresent int int
  | ATSpectrographGetNumberGratings int
  | ATSpectrographGetWavelengthLimits int int
  | ATSpectrographFlipperMirrorIsPresent int int
  | ATSpectrographGetFlipperMirror int int
  | ATSpectrographGetGrating int
  | ATSpectrographGetWavelength int
  | ATSpectrographGetSlitWidth int int
  | ATSpectrographGetCalibration int int
  | ATSpectrographSetGrating int int
  | ATSpectrographSetFlipperMirror int int int
  | ATSpectrographSetWavelength int real
  | ATSpectrographSetSlitWidth int int real
  | ATSpectrographGetFunctionReturnDescription int

text \<open>
  What a call leaves behind: its return code and the contents of its output arguments
  afterwards (whatever they hold when the call failed).
\<close>

record sdk_reply =
  rcode :: int
  ival :: int
  ival2 :: int
  fval :: real
  fval2 :: real
  farr :: "real list"
  sval :: string

datatype pub =
    ParamCallbacks int
  | Float32ArrayCallbacks "real list" int param int

record env =
  devReply :: "sdk_call list \<Rightarrow> sdk_call \<Rightarrow> sdk_reply"
  hostSet :: "int \<Rightarrow> param \<Rightarrow> asynParamType \<Rightarrow> asynStatus"
  toFloat :: "real \<Rightarrow> real"
  ATSPECTROGRAPH_SUCCESS :: int
  DRV_SUCCESS :: int

text \<open>
  The members of class \<open>shamrock\<close>, the parameter library of its base class
  (\<open>params\<close>, keyed by address and reason code) and the two logs. The fixed-size arrays
  are functions of the index; every access with an index that is not bounded by its loop
  is checked against the array size. The members are named as in the source, without the
  trailing underscore (\<open>numPixels\<close> is \<open>numPixels_\<close>).
\<close>

record shamrock =
  shamrockId :: int
  slitIsPresent :: "nat \<Rightarrow> bool"
  numPixels :: int
  calibration :: "real list"
  lastError :: string
  flipperMirrorIsPresent :: "nat \<Rightarrow> bool"
  params :: "int \<times> param \<Rightarrow> pval option"
  sdkLog :: "sdk_call list"
  published :: "pub list"

record asynUser =
  reason :: param
  userAddr :: int

subsection \<open>The SDK and the host framework\<close>

definition sdkCall :: "env \<Rightarrow> sdk_call \<Rightarrow> shamrock \<Rightarrow> sdk_reply \<times> shamrock" where
  "sdkCall env c s = (devReply env (sdkLog s) c, s\<lparr>sdkLog := sdkLog s @ [c]\<rparr>)"

definition setIntegerParam :: "env \<Rightarrow> int \<Rightarrow> param \<Rightarrow> int \<Rightarrow> shamrock \<Rightarrow> asynStatus \<times> shamrock" where
  "setIntegerParam env list index v s =
     (let st = hostSet env list index asynParamInt32
      in (st, if st = asynSuccess then s\<lparr>params := (params s)((list, index) \<mapsto> PInt v)\<rparr> else s))"

definition setDoubleParam :: "env \<Rightarrow> int \<Rightarrow> param \<Rightarrow> real \<Rightarrow> shamrock \<Rightarrow> asynStatus \<times> shamrock" where
  "setDoubleParam env list index v s =
     (let st = hostSet env list index asynParamFloat64
      in (st, if st = asynSuccess then s\<lparr>params := (params s)((list, index) \<mapsto> PDouble v)\<rparr> else s))"

definition callParamCallbacks :: "int \<Rightarrow> shamrock \<Rightarrow> shamrock" where
  "callParamCallbacks addr s = s\<lparr>published := published s @ [ParamCallbacks addr]\<rparr>"

definition doCallbacksFloat32Array :: "real list \<Rightarrow> int \<Rightarrow> param \<Rightarrow> int \<Rightarrow> shamrock \<Rightarrow> shamrock" where
  "doCallbacksFloat32Array v n index addr s =
     s\<lparr>published := published s @ [Float32ArrayCallbacks v n index addr]\<rparr>"

text \<open>\<open>for (i=0; i<MAX_ADDR; i++) callParamCallbacks(i);\<close>\<close>

fun callAllParamCallbacks :: "nat list \<Rightarrow> shamrock \<Rightarrow> shamrock" where
  "callAllParamCallbacks [] s = s"
| "callAllParamCallbacks (i # is) s = callAllParamCallbacks is (callParamCallbacks (int i) s)"

text \<open>
  The SDK fills the caller's buffer in place: it writes at most the \<open>n\<close> values it was
  asked for and cannot change the size of the allocation.
\<close>

definition fill :: "real list \<Rightarrow> real list \<Rightarrow> real list" where
  "fill buf vals = take (length buf) (vals @ drop (length vals) buf)"

subsection \<open>checkError (lines 251-261)\<close>

definition checkError :: "env \<Rightarrow> int \<Rightarrow> shamrock \<Rightarrow> asynStatus \<times> shamrock" where
  "checkError env status s =
     (if status \<noteq> ATSPECTROGRAPH_SUCCESS env then
        (case sdkCall env (ATSpectrographGetFunctionReturnDescription status) s of
           (r, s1) \<Rightarrow> (asynError, s1\<lparr>lastError := sval r\<rparr>))
      else (asynSuccess, s))"

subsection \<open>getStatus (lines 263-319)\<close>

text \<open>The flipper-mirror loop, lines 275-281.\<close>

fun getFlipperStatus :: "env \<Rightarrow> nat list \<Rightarrow> shamrock \<Rightarrow> asynStatus \<times> shamrock" where
  "getFlipperStatus env [] s = (asynSuccess, s)"
| "getFlipperStatus env (i # is) s =
     (if \<not> flipperMirrorIsPresent s i then getFlipperStatus env is s
      else
        (case sdkCall env (ATSpectrographGetFlipperMirror (shamrockId s) (int i + 1)) s of
           (r, s1) \<Rightarrow>
             (case checkError env (rcode r) s1 of
                (status, s2) \<Rightarrow>
                  if status \<noteq> asynSuccess then (asynError, s2)
                  else getFlipperStatus env is
                         (snd (setIntegerParam env (int i) SRFlipperMirrorPort (ival r) s2)))))"

text \<open>The slit loop, lines 294-301.\<close>

fun getSlitWidths :: "env \<Rightarrow> nat list \<Rightarrow> shamrock \<Rightarrow> asynStatus \<times> shamrock" where
  "getSlitWidths env [] s = (asynSuccess, s)"
| "getSlitWidths env (i # is) s =
     (let s0 = snd (setDoubleParam env (int i) SRSlitSize 0 s)
      in if \<not> slitIsPresent s0 i then getSlitWidths env is s0
         else
           (case sdkCall env (ATSpectrographGetSlitWidth (shamrockId s0) (int i + 1)) s0 of
              (r, s1) \<Rightarrow>
                (case checkError env (rcode r) s1 of
                   (status, s2) \<Rightarrow>
                     if status \<noteq> asynSuccess then (asynError, s2)
                     else getSlitWidths env is
                            (snd (setDoubleParam env (int i) SRSlitSize (fval r) s2)))))"

text \<open>Lines 303-318: the calibration table, its two edges, and the publication.\<close>

definition getCalibration :: "env \<Rightarrow> shamrock \<Rightarrow> fault + (asynStatus \<times> shamrock)" where
  "getCalibration env s =
     (case sdkCall env (ATSpectrographGetCalibration (shamrockId s) (numPixels s)) s of
        (r, s1) \<Rightarrow>
          (let s2 = s1\<lparr>calibration :=
                        fill (calibration s1) (take (nat (numPixels s1)) (farr r))\<rparr>
           in case checkError env (rcode r) s2 of
                (status, s3) \<Rightarrow>
                  if status \<noteq> asynSuccess then Inr (asynError, s3)
                  else if \<not> 0 < length (calibration s3) then Inl OutOfBounds
                  else
                    (let s4 = snd (setDoubleParam env 0 SRMinWavelength (calibration s3 ! 0) s3)
                     in if \<not> (0 \<le> numPixels s4 - 1
                               \<and> nat (numPixels s4 - 1) < length (calibration s4))
                        then Inl OutOfBounds
                        else
                          (let s5 = snd (setDoubleParam env 0 SRMaxWavelength
                                           (calibration s4 ! nat (numPixels s4 - 1)) s4);
                               s6 = callAllParamCallbacks [0..<MAX_ADDR] s5;
                               s7 = doCallbacksFloat32Array (calibration s6) (numPixels s6)
                                      SRCalibration 0 s6
                           in Inr (asynSuccess, s7)))))"

text \<open>Lines 284-292: grating and wavelength.\<close>

definition getGratingWavelength :: "env \<Rightarrow> shamrock \<Rightarrow> asynStatus \<times> shamrock" where
  "getGratingWavelength env s =
     (case sdkCall env (ATSpectrographGetGrating (shamrockId s)) s of
        (r1, s1) \<Rightarrow>
          (case checkError env (rcode r1) s1 of
             (status1, s2) \<Rightarrow>
               if status1 \<noteq> asynSuccess then (asynError, s2)
               else
                 (let s3 = snd (setIntegerParam env 0 SRGrating (ival r1) s2)
                  in case sdkCall env (ATSpectrographGetWavelength (shamrockId s3)) s3 of
                       (r2, s4) \<Rightarrow>
                         (case checkError env (rcode r2) s4 of
                            (status2, s5) \<Rightarrow>
                              if status2 \<noteq> asynSuccess then (asynError, s5)
                              else (asynSuccess,
                                    snd (setDoubleParam env 0 SRWavelength (fval r2) s5))))))"

definition getStatus :: "env \<Rightarrow> shamrock \<Rightarrow> fault + (asynStatus \<times> shamrock)" where
  "getStatus env s =
     (case getFlipperStatus env [0..<MAX_FLIPPER_MIRRORS] s of
        (st1, s1) \<Rightarrow>
          if st1 \<noteq> asynSuccess then Inr (asynError, s1)
          else
            (case getGratingWavelength env s1 of
               (st2, s2) \<Rightarrow>
                 if st2 \<noteq> asynSuccess then Inr (asynError, s2)
                 else
                   (case getSlitWidths env [0..<MAX_SLITS] s2 of
                      (st3, s3) \<Rightarrow>
                        if st3 \<noteq> asynSuccess then Inr (asynError, s3)
                        else getCalibration env s3)))"

subsection \<open>writeInt32 (lines 328-364)\<close>

text \<open>
  Lines 336-337 and 379-380: \<open>pasynManager->getAddr(pasynUser, &addr); if (addr < 0) addr=0;\<close>
\<close>

definition addrOf :: "asynUser \<Rightarrow> int" where
  "addrOf pasynUser = (if userAddr pasynUser < 0 then 0 else userAddr pasynUser)"

text \<open>
  Lines 336-353: the provisional write into the parameter library and the forwarded SDK
  call. \<open>flipperMirrorIsPresent_[addr]\<close> is an array of
  \<open>MAX_FLIPPER_MIRRORS\<close> elements.
\<close>

definition forwardInt32 :: "env \<Rightarrow> asynUser \<Rightarrow> int \<Rightarrow> shamrock \<Rightarrow> fault + (asynStatus \<times> shamrock)" where
  "forwardInt32 env pasynUser v s =
     (let function = reason pasynUser;
          addr = addrOf pasynUser
      in case setIntegerParam env addr function v s of
           (status, s1) \<Rightarrow>
             if function = SRGrating then
               (case sdkCall env (ATSpectrographSetGrating (shamrockId s1) v) s1 of
                  (r, s2) \<Rightarrow> Inr (checkError env (rcode r) s2))
             else if function = SRFlipperMirrorPort then
               (if \<not> nat addr < MAX_FLIPPER_MIRRORS then Inl OutOfBounds
                else if flipperMirrorIsPresent s1 (nat addr) then
                  (case sdkCall env
                          (ATSpectrographSetFlipperMirror (shamrockId s1) (addr + 1) v) s1 of
                     (r, s2) \<Rightarrow> Inr (checkError env (rcode r) s2))
                else Inr (status, s1))
             else Inr (status, s1))"

definition writeInt32 :: "env \<Rightarrow> asynUser \<Rightarrow> int \<Rightarrow> shamrock \<Rightarrow> fault + (asynStatus \<times> shamrock)" where
  "writeInt32 env pasynUser v s =
     (let addr = addrOf pasynUser
      in case forwardInt32 env pasynUser v s of
           Inl f \<Rightarrow> Inl f
         | Inr (status, s1) \<Rightarrow>
             (case getStatus env s1 of
                Inl f \<Rightarrow> Inl f
              | Inr (ignored, s2) \<Rightarrow> Inr (status, callParamCallbacks addr s2)))"

subsection \<open>writeFloat64 (lines 371-404)\<close>

text \<open>Lines 379-395; \<open>slitIsPresent_[addr]\<close> is an array of \<open>MAX_SLITS\<close> elements.\<close>

definition forwardFloat64 :: "env \<Rightarrow> asynUser \<Rightarrow> real \<Rightarrow> shamrock \<Rightarrow> fault + (asynStatus \<times> shamrock)" where
  "forwardFloat64 env pasynUser v s =
     (let function = reason pasynUser;
          addr = addrOf pasynUser
      in case setDoubleParam env addr function v s of
           (status, s1) \<Rightarrow>
             if function = SRWavelength then
               (case sdkCall env (ATSpectrographSetWavelength (shamrockId s1) (toFloat env v)) s1 of
                  (r, s2) \<Rightarrow> Inr (checkError env (rcode r) s2))
             else if function = SRSlitSize then
               (if \<not> nat addr < MAX_SLITS then Inl OutOfBounds
                else if slitIsPresent s1 (nat addr) then
                  (case sdkCall env
                          (ATSpectrographSetSlitWidth (shamrockId s1) (addr + 1) (toFloat env v)) s1 of
                     (r, s2) \<Rightarrow> Inr (checkError env (rcode r) s2))
                else Inr (status, s1))
             else Inr (status, s1))"

definition writeFloat64 :: "env \<Rightarrow> asynUser \<Rightarrow> real \<Rightarrow> shamrock \<Rightarrow> fault + (asynStatus \<times> shamrock)" where
  "writeFloat64 env pasynUser v s =
     (let addr = addrOf pasynUser
      in case forwardFloat64 env pasynUser v s of
           Inl f \<Rightarrow> Inl f
         | Inr (status, s1) \<Rightarrow>
             (case getStatus env s1 of
                Inl f \<Rightarrow> Inl f
              | Inr (ignored, s2) \<Rightarrow> Inr (status, callParamCallbacks addr s2)))"

subsection \<open>readFloat32Array (lines 412-424)\<close>

text \<open>
  \<open>*nIn = numPixels_\<close> converts an \<open>int\<close> to \<open>size_t\<close> (64 bits). \<open>pValue\<close> is the
  caller's array and \<open>nIn\<close> what \<open>*nIn\<close> held before the call; \<open>memcpy\<close> reads \<open>*nIn\<close>
  elements of the buffer and writes as many of the caller's array. The result carries the
  caller's array, \<open>*nIn\<close> and the driver afterwards.
\<close>

definition size_t_of_int :: "int \<Rightarrow> nat" where
  "size_t_of_int i = nat (i mod 2 ^ 64)"

definition readFloat32Array ::
  "asynUser \<Rightarrow> real list \<Rightarrow> nat \<Rightarrow> nat \<Rightarrow> shamrock \<Rightarrow> fault + (asynStatus \<times> real list \<times> nat \<times> shamrock)" where
  "readFloat32Array pasynUser pValue nElements nIn s =
     (if reason pasynUser = SRCalibration then
        (let nIn1 = size_t_of_int (numPixels s);
             nIn2 = (if nElements < nIn1 then nElements else nIn1)
         in if nIn2 \<le> length (calibration s) \<and> nIn2 \<le> length pValue
            then Inr (asynSuccess, take nIn2 (calibration s) @ drop nIn2 pValue, nIn2, s)
            else Inl OutOfBounds)
      else Inr (asynSuccess, pValue, nIn, s))"

subsection \<open>The constructor (lines 129-249)\<close>

text \<open>The slit loop, lines 209-215.\<close>

fun ctorSlits :: "env \<Rightarrow> nat list \<Rightarrow> shamrock \<Rightarrow> shamrock" where
  "ctorSlits env [] s = s"
| "ctorSlits env (i # is) s =
     (case sdkCall env (ATSpectrographSlitIsPresent (shamrockId s) (int i + 1)) s of
        (r, s1) \<Rightarrow>
          (let s2 = snd (checkError env (rcode r) s1);
               s3 = s2\<lparr>slitIsPresent := (slitIsPresent s2)(i := (ival r = 1))\<rparr>;
               s4 = snd (setIntegerParam env (int i) SRSlitExists
                           (if slitIsPresent s3 i then 1 else 0) s3)
           in ctorSlits env is s4))"

text \<open>The loop over the gratings the device reports, lines 223-229.\<close>

fun ctorGratingLimits :: "env \<Rightarrow> int list \<Rightarrow> shamrock \<Rightarrow> shamrock" where
  "ctorGratingLimits env [] s = s"
| "ctorGratingLimits env (i # is) s =
     (let s1 = snd (setIntegerParam env i SRGratingExists 1 s)
      in case sdkCall env (ATSpectrographGetWavelengthLimits (shamrockId s1) i) s1 of
           (r, s2) \<Rightarrow>
             (let s3 = snd (checkError env (rcode r) s2);
                  s4 = snd (setDoubleParam env i SRMinWavelength (fval r) s3);
                  s5 = snd (setDoubleParam env i SRMaxWavelength (fval2 r) s4)
              in ctorGratingLimits env is s5))"

text \<open>The loop over the remaining gratings, lines 230-232.\<close>

fun ctorGratingAbsent :: "env \<Rightarrow> int list \<Rightarrow> shamrock \<Rightarrow> shamrock" where
  "ctorGratingAbsent env [] s = s"
| "ctorGratingAbsent env (i # is) s =
     ctorGratingAbsent env is (snd (setIntegerParam env i SRGratingExists 0 s))"

text \<open>The flipper-mirror loop, lines 235-240.\<close>

fun ctorFlipperMirrors :: "env \<Rightarrow> nat list \<Rightarrow> shamrock \<Rightarrow> shamrock" where
  "ctorFlipperMirrors env [] s = s"
| "ctorFlipperMirrors env (i # is) s =
     (case sdkCall env (ATSpectrographFlipperMirrorIsPresent (shamrockId s) (int i + 1)) s of
        (r, s1) \<Rightarrow>
          (let s2 = snd (checkError env (rcode r) s1);
               s3 = s2\<lparr>flipperMirrorIsPresent := (flipperMirrorIsPresent s2)(i := (ival r = 1))\<rparr>;
               s4 = snd (setIntegerParam env (int i) SRFlipperMirrorExists
                           (if flipperMirrorIsPresent s3 i then 1 else 0) s3)
           in ctorFlipperMirrors env is s4))"

text \<open>
  Lines 208-248: what the constructor does once the pixel count is known. The result of
  \<open>getStatus\<close> is not looked at. The counter of \<open>for (i=1; i<=numGratings; i++)\<close>
  overflows when \<open>numGratings\<close> is \<open>INT_MAX\<close>.
\<close>

definition ctorDiscover :: "env \<Rightarrow> shamrock \<Rightarrow> fault + shamrock" where
  "ctorDiscover env s =
     (let s1 = ctorSlits env [0..<MAX_SLITS] s
      in case sdkCall env (ATSpectrographGetNumberGratings (shamrockId s1)) s1 of
           (r, s2) \<Rightarrow>
             (let numGratings = ival r;
                  s3 = snd (checkError env (rcode r) s2);
                  s4 = snd (setIntegerParam env 0 SRNumGratings numGratings s3);
                  s5 = ctorGratingLimits env [1..numGratings] s4;
                  s6 = ctorGratingAbsent env [numGratings..MAX_GRATINGS - 1] s5;
                  s7 = ctorFlipperMirrors env [0..<MAX_FLIPPER_MIRRORS] s6
              in if numGratings = 2147483647 then Inl SignedOverflow
                 else
                   (case getStatus env s7 of
                      Inl f \<Rightarrow> Inl f
                    | Inr (ignored, s8) \<Rightarrow> Inr (callAllParamCallbacks [0..<MAX_ADDR] s8))))"

text \<open>
  Lines 184-206: the pixel count and width are pushed to the spectrograph SDK and read
  back; no status is looked at except the detector's. \<open>calloc\<close> of a negative count
  (a huge \<open>size_t\<close>) returns no memory.
\<close>

definition ctorPixels :: "env \<Rightarrow> int \<Rightarrow> shamrock \<Rightarrow> fault + shamrock" where
  "ctorPixels env width s =
     (case sdkCall env (ATSpectrographSetNumberPixels (shamrockId s) width) s of
        (r1, s1) \<Rightarrow>
          (let s2 = snd (checkError env (rcode r1) s1)
           in case sdkCall env GetPixelSize s2 of
                (r2, s3) \<Rightarrow>
                  if rcode r2 \<noteq> DRV_SUCCESS env then Inr s3
                  else
                    (case sdkCall env (ATSpectrographSetPixelWidth (shamrockId s3) (fval r2)) s3 of
                       (r3, s4) \<Rightarrow>
                         (let s5 = snd (checkError env (rcode r3) s4)
                          in case sdkCall env (ATSpectrographGetNumberPixels (shamrockId s5)) s5 of
                               (r4, s6) \<Rightarrow>
                                 (let s7 = snd (checkError env (rcode r4) (s6\<lparr>numPixels := ival r4\<rparr>))
                                  in case sdkCall env (ATSpectrographGetPixelWidth (shamrockId s7)) s7 of
                                       (r5, s8) \<Rightarrow>
                                         (let s9 = snd (checkError env (rcode r5) s8);
                                              s10 = s9\<lparr>calibration :=
                                                       replicate (nat (numPixels s9)) 0\<rparr>
                                          in ctorDiscover env s10))))))"

text \<open>
  The constructor. \<open>mem\<close> is the object as allocated: the base-class constructor has made
  an empty parameter library and registered the port, the members hold whatever the memory
  held, and \<open>sdkLog\<close> and \<open>published\<close> are the logs so far. \<open>createParam\<close> only hands
  out the reason codes. \<open>portName\<close>, \<open>priority\<close> and \<open>stackSize\<close> go to the base class.
\<close>

definition shamrock_ctor :: "env \<Rightarrow> int \<Rightarrow> string \<Rightarrow> shamrock \<Rightarrow> fault + shamrock" where
  "shamrock_ctor env shamrockID iniPath mem =
     (let s0 = mem\<lparr>shamrockId := shamrockID, params := Map.empty\<rparr>
      in case sdkCall env (ATSpectrographInitialize iniPath) s0 of
           (r1, s1) \<Rightarrow>
             (case checkError env (rcode r1) s1 of
                (status1, s2) \<Rightarrow>
                  if status1 \<noteq> asynSuccess then Inr s2
                  else
                    (case sdkCall env ATSpectrographGetNumberDevices s2 of
                       (r2, s3) \<Rightarrow>
                         (case checkError env (rcode r2) s3 of
                            (status2, s4) \<Rightarrow>
                              if status2 \<noteq> asynSuccess then Inr s4
                              else if ival r2 < 1 then Inr s4
                              else
                                (case sdkCall env GetDetector s4 of
                                   (r3, s5) \<Rightarrow>
                                     if rcode r3 \<noteq> DRV_SUCCESS env then Inr s5
                                     else ctorPixels env (ival r3) s5)))))"

subsection \<open>A device and a host to run the driver on\<close>

text \<open>
  The types \<open>createParam\<close> registers (lines 149-159), and a host that accepts a write to
  one of its \<open>MAX_ADDR\<close> address slots when the type is the registered one.
\<close>

fun paramType :: "param \<Rightarrow> asynParamType option" where
  "paramType SRWavelength = Some asynParamFloat64"
| "paramType SRMinWavelength = Some asynParamFloat64"
| "paramType SRMaxWavelength = Some asynParamFloat64"
| "paramType SRCalibration = Some asynParamFloat32Array"
| "paramType SRGrating = Some asynParamInt32"
| "paramType SRNumGratings = Some asynParamInt32"
| "paramType SRGratingExists = Some asynParamInt32"
| "paramType SRFlipperMirrorPort = Some asynParamInt32"
| "paramType SRFlipperMirrorExists = Some asynParamInt32"
| "paramType SRSlitExists = Some asynParamInt32"
| "paramType SRSlitSize = Some asynParamFloat64"
| "paramType (OtherParam n) = None"

definition demoHost :: "int \<Rightarrow> param \<Rightarrow> asynParamType \<Rightarrow> asynStatus" where
  "demoHost list index ty =
     (if 0 \<le> list \<and> list < int MAX_ADDR then
        (case paramType index of
           None \<Rightarrow> asynParamBadIndex
         | Some t \<Rightarrow> if t = ty then asynSuccess else asynParamWrongType)
      else asynParamBadIndex)"

text \<open>
  A spectrograph with \<open>n\<close> gratings, slits 1 and 2, flipper mirror 2 and a detector of
  three pixels; the calls in \<open>bad\<close> fail.
\<close>

definition demoReply :: "(sdk_call \<Rightarrow> bool) \<Rightarrow> int \<Rightarrow> sdk_call list \<Rightarrow> sdk_call \<Rightarrow> sdk_reply" where
  "demoReply bad n h c =
     \<lparr>rcode = (if bad c then 20201
               else (case c of GetDetector \<Rightarrow> 20002 | GetPixelSize \<Rightarrow> 20002 | _ \<Rightarrow> 20202)),
      ival = (case c of
                ATSpectrographGetNumberDevices \<Rightarrow> 1
              | GetDetector \<Rightarrow> 3
              | ATSpectrographGetNumberPixels i \<Rightarrow> 3
              | ATSpectrographSlitIsPresent i j \<Rightarrow> (if j \<le> 2 then 1 else 0)
              | ATSpectrographGetNumberGratings i \<Rightarrow> n
              | ATSpectrographFlipperMirrorIsPresent i j \<Rightarrow> (if j = 2 then 1 else 0)
              | ATSpectrographGetFlipperMirror i j \<Rightarrow> 1
              | ATSpectrographGetGrating i \<Rightarrow> 1
              | _ \<Rightarrow> 0),
      ival2 = (case c of GetDetector \<Rightarrow> 1 | _ \<Rightarrow> 0),
      fval = (case c of
                GetPixelSize \<Rightarrow> 26
              | ATSpectrographGetPixelWidth i \<Rightarrow> 26
              | ATSpectrographGetWavelengthLimits i j \<Rightarrow> 200
              | ATSpectrographGetWavelength i \<Rightarrow> 550
              | ATSpectrographGetSlitWidth i j \<Rightarrow> 10 * real_of_int j
              | _ \<Rightarrow> 0),
      fval2 = (case c of
                 GetPixelSize \<Rightarrow> 26
               | ATSpectrographGetWavelengthLimits i j \<Rightarrow> 1000
               | _ \<Rightarrow> 0),
      farr = (case c of ATSpectrographGetCalibration i k \<Rightarrow> [500, 550, 600] | _ \<Rightarrow> []),
      sval = (if bad c then ''failed'' else [])\<rparr>"

definition demoEnv :: "(sdk_call \<Rightarrow> bool) \<Rightarrow> int \<Rightarrow> env" where
  "demoEnv bad n =
     \<lparr>devReply = demoReply bad n, hostSet = demoHost, toFloat = (\<lambda>x. x),
      ATSPECTROGRAPH_SUCCESS = 20202, DRV_SUCCESS = 20002\<rparr>"

definition demoMem :: shamrock where
  "demoMem =
     \<lparr>shamrockId = 0, slitIsPresent = (\<lambda>i. False), numPixels = 0, calibration = [],
      lastError = [], flipperMirrorIsPresent = (\<lambda>i. False), params = Map.empty,
      sdkLog = [], published = []\<rparr>"

text \<open>
  A driver on that device in use: slits 1 and 2 and mirror 2 present, three pixels, port 1
  cached for both mirror addresses (for the absent mirror 1 by an earlier write of port
  1) and width 0 for the absent slit 3.
\<close>

definition demoDriver :: shamrock where
  "demoDriver =
     \<lparr>shamrockId = 0, slitIsPresent = (\<lambda>i. i < 2), numPixels = 3,
      calibration = [500, 550, 600], lastError = [],
      flipperMirrorIsPresent = (\<lambda>i. i = 1),
      params = [(0, SRFlipperMirrorPort) \<mapsto> PInt 1, (1, SRFlipperMirrorPort) \<mapsto> PInt 1,
                (2, SRSlitSize) \<mapsto> PDouble 0],
      sdkLog = [], published = []\<rparr>"

text \<open>
  The instance a constructor leaves behind when \<open>ATSpectrographInitialize\<close> fails, on a
  device whose every SDK call fails (the SDK was never initialised).
\<close>

definition inertDriver :: shamrock where
  "inertDriver = projr (shamrock_ctor (demoEnv (\<lambda>c. True) 2) 0 ''bad.ini'' demoMem)"

subsection \<open>Notions used to state the properties\<close>

text \<open>A call, made after the calls \<open>h\<close>, returned \<open>ATSPECTROGRAPH_SUCCESS\<close>.\<close>

definition callOk :: "env \<Rightarrow> sdk_call list \<Rightarrow> sdk_call \<Rightarrow> bool" where
  "callOk env h c = (rcode (devReply env h c) = ATSPECTROGRAPH_SUCCESS env)"

text \<open>Each of the calls \<open>cs\<close>, made in this order after \<open>h\<close>, returned success.\<close>

fun allOk :: "env \<Rightarrow> sdk_call list \<Rightarrow> sdk_call list \<Rightarrow> bool" where
  "allOk env h [] = True"
| "allOk env h (c # cs) = (callOk env h c \<and> allOk env (h @ [c]) cs)"

text \<open>
  Each call of kind \<open>R\<close> among the calls \<open>cs\<close>, made in this order after \<open>h\<close>,
  returned success.
\<close>

fun succeeded :: "env \<Rightarrow> (sdk_call \<Rightarrow> bool) \<Rightarrow> sdk_call list \<Rightarrow> sdk_call list \<Rightarrow> bool" where
  "succeeded env R h [] = True"
| "succeeded env R h (c # cs) = ((R c \<longrightarrow> callOk env h c) \<and> succeeded env R (h @ [c]) cs)"

text \<open>The lookup of the error text that \<open>checkError\<close> makes for a call that failed.\<close>

definition errorLookup :: "env \<Rightarrow> sdk_call list \<Rightarrow> sdk_call \<Rightarrow> sdk_call" where
  "errorLookup env h c = ATSpectrographGetFunctionReturnDescription (rcode (devReply env h c))"

text \<open>The five kinds of read \<open>getStatus\<close> makes.\<close>

fun isRefreshRead :: "sdk_call \<Rightarrow> bool" where
  "isRefreshRead (ATSpectrographGetFlipperMirror i j) = True"
| "isRefreshRead (ATSpectrographGetGrating i) = True"
| "isRefreshRead (ATSpectrographGetWavelength i) = True"
| "isRefreshRead (ATSpectrographGetSlitWidth i j) = True"
| "isRefreshRead (ATSpectrographGetCalibration i n) = True"
| "isRefreshRead c = False"

text \<open>
  The reads \<open>getStatus\<close> makes before it comes to the slit at address \<open>a\<close>: the mirrors,
  the grating, the wavelength and the slits at lower addresses (slit \<open>j\<close> is at address
  \<open>j - 1\<close>).
\<close>

fun readsBeforeSlit :: "int \<Rightarrow> sdk_call \<Rightarrow> bool" where
  "readsBeforeSlit a (ATSpectrographGetFlipperMirror i j) = True"
| "readsBeforeSlit a (ATSpectrographGetGrating i) = True"
| "readsBeforeSlit a (ATSpectrographGetWavelength i) = True"
| "readsBeforeSlit a (ATSpectrographGetSlitWidth i j) = (j \<le> a)"
| "readsBeforeSlit a c = False"

text \<open>
  The shape of the calls \<open>cs\<close> that a sequence of checked reads of kind \<open>R\<close> adds to the
  log \<open>h\<close>: all of them succeeded, or the last read failed and only the lookup of its
  error text follows it.
\<close>

definition readTrace :: "env \<Rightarrow> (sdk_call \<Rightarrow> bool) \<Rightarrow> sdk_call list \<Rightarrow> asynStatus \<Rightarrow> sdk_call list \<Rightarrow> bool" where
  "readTrace env R h st cs =
     (if st = asynSuccess then allOk env h cs \<and> list_all R cs
      else st = asynError \<and>
           (\<exists>pre c. cs = pre @ [c, errorLookup env (h @ pre) c] \<and> allOk env h pre
                    \<and> list_all R pre \<and> R c \<and> \<not> callOk env (h @ pre) c))"

text \<open>The members that only the constructor writes.\<close>

definition sameMembers :: "shamrock \<Rightarrow> shamrock \<Rightarrow> bool" where
  "sameMembers s s' =
     (shamrockId s' = shamrockId s \<and> slitIsPresent s' = slitIsPresent s
      \<and> flipperMirrorIsPresent s' = flipperMirrorIsPresent s \<and> numPixels s' = numPixels s
      \<and> length (calibration s') = length (calibration s))"

section \<open>Properties\<close>

subsection \<open>Members and logs after each step\<close>

lemma length_fill [simp]: "length (fill buf vals) = length buf"
  by (simp add: fill_def)

lemma sameMembers_refl [simp]: "sameMembers s s"
  by (simp add: sameMembers_def)

lemma sameMembers_trans: "sameMembers s s1 \<Longrightarrow> sameMembers s1 s2 \<Longrightarrow> sameMembers s s2"
  by (simp add: sameMembers_def)

lemma callAllParamCallbacks_fields [simp]:
  "shamrockId (callAllParamCallbacks is s) = shamrockId s"
  "slitIsPresent (callAllParamCallbacks is s) = slitIsPresent s"
  "flipperMirrorIsPresent (callAllParamCallbacks is s) = flipperMirrorIsPresent s"
  "lastError (callAllParamCallbacks is s) = lastError s"
  "params (callAllParamCallbacks is s) = params s"
  "sdkLog (callAllParamCallbacks is s) = sdkLog s"
  "calibration (callAllParamCallbacks is s) = calibration s"
  "numPixels (callAllParamCallbacks is s) = numPixels s"
  "published (callAllParamCallbacks is s) = published s @ map (\<lambda>i. ParamCallbacks (int i)) is"
  by (induction "is" arbitrary: s; simp add: callParamCallbacks_def)+


lemma sdkCall_fields [simp]:
  "fst (sdkCall env c s) = devReply env (sdkLog s) c"
  "shamrockId (snd (sdkCall env c s)) = shamrockId s"
  "slitIsPresent (snd (sdkCall env c s)) = slitIsPresent s"
  "flipperMirrorIsPresent (snd (sdkCall env c s)) = flipperMirrorIsPresent s"
  "numPixels (snd (sdkCall env c s)) = numPixels s"
  "calibration (snd (sdkCall env c s)) = calibration s"
  "params (snd (sdkCall env c s)) = params s"
  "published (snd (sdkCall env c s)) = published s"
  "sdkLog (snd (sdkCall env c s)) = sdkLog s @ [c]"
  by (simp_all add: sdkCall_def)

lemma checkError_fields [simp]:
  "fst (checkError env code s) = (if code = ATSPECTROGRAPH_SUCCESS env then asynSuccess else asynError)"
  "shamrockId (snd (checkError env code s)) = shamrockId s"
  "slitIsPresent (snd (checkError env code s)) = slitIsPresent s"
  "flipperMirrorIsPresent (snd (checkError env code s)) = flipperMirrorIsPresent s"
  "numPixels (snd (checkError env code s)) = numPixels s"
  "calibration (snd (checkError env code s)) = calibration s"
  "params (snd (checkError env code s)) = params s"
  "published (snd (checkError env code s)) = published s"
  "sdkLog (snd (checkError env code s)) =
     (if code = ATSPECTROGRAPH_SUCCESS env then sdkLog s
      else sdkLog s @ [ATSpectrographGetFunctionReturnDescription code])"
  by (simp_all add: checkError_def sdkCall_def)

lemma setIntegerParam_fields [simp]:
  "fst (setIntegerParam env l i v s) = hostSet env l i asynParamInt32"
  "shamrockId (snd (setIntegerParam env l i v s)) = shamrockId s"
  "slitIsPresent (snd (setIntegerParam env l i v s)) = slitIsPresent s"
  "flipperMirrorIsPresent (snd (setIntegerParam env l i v s)) = flipperMirrorIsPresent s"
  "numPixels (snd (setIntegerParam env l i v s)) = numPixels s"
  "calibration (snd (setIntegerParam env l i v s)) = calibration s"
  "published (snd (setIntegerParam env l i v s)) = published s"
  "sdkLog (snd (setIntegerParam env l i v s)) = sdkLog s"
  "params (snd (setIntegerParam env l i v s)) =
     (if hostSet env l i asynParamInt32 = asynSuccess then (params s)((l, i) \<mapsto> PInt v)
      else params s)"
  by (simp_all add: setIntegerParam_def Let_def)

lemma setDoubleParam_fields [simp]:
  "fst (setDoubleParam env l i v s) = hostSet env l i asynParamFloat64"
  "shamrockId (snd (setDoubleParam env l i v s)) = shamrockId s"
  "slitIsPresent (snd (setDoubleParam env l i v s)) = slitIsPresent s"
  "flipperMirrorIsPresent (snd (setDoubleParam env l i v s)) = flipperMirrorIsPresent s"
  "numPixels (snd (setDoubleParam env l i v s)) = numPixels s"
  "calibration (snd (setDoubleParam env l i v s)) = calibration s"
  "published (snd (setDoubleParam env l i v s)) = published s"
  "sdkLog (snd (setDoubleParam env l i v s)) = sdkLog s"
  "params (snd (setDoubleParam env l i v s)) =
     (if hostSet env l i asynParamFloat64 = asynSuccess then (params s)((l, i) \<mapsto> PDouble v)
      else params s)"
  by (simp_all add: setDoubleParam_def Let_def)

lemma callParamCallbacks_fields [simp]:
  "shamrockId (callParamCallbacks a s) = shamrockId s"
  "slitIsPresent (callParamCallbacks a s) = slitIsPresent s"
  "flipperMirrorIsPresent (callParamCallbacks a s) = flipperMirrorIsPresent s"
  "numPixels (callParamCallbacks a s) = numPixels s"
  "calibration (callParamCallbacks a s) = calibration s"
  "params (callParamCallbacks a s) = params s"
  "sdkLog (callParamCallbacks a s) = sdkLog s"
  "published (callParamCallbacks a s) = published s @ [ParamCallbacks a]"
  by (simp_all add: callParamCallbacks_def)

lemma doCallbacksFloat32Array_fields [simp]:
  "shamrockId (doCallbacksFloat32Array v n i a s) = shamrockId s"
  "slitIsPresent (doCallbacksFloat32Array v n i a s) = slitIsPresent s"
  "flipperMirrorIsPresent (doCallbacksFloat32Array v n i a s) = flipperMirrorIsPresent s"
  "numPixels (doCallbacksFloat32Array v n i a s) = numPixels s"
  "calibration (doCallbacksFloat32Array v n i a s) = calibration s"
  "params (doCallbacksFloat32Array v n i a s) = params s"
  "sdkLog (doCallbacksFloat32Array v n i a s) = sdkLog s"
  "published (doCallbacksFloat32Array v n i a s) = published s @ [Float32ArrayCallbacks v n i a]"
  by (simp_all add: doCallbacksFloat32Array_def)

lemma getFlipperStatus_fields [simp]:
  "shamrockId (snd (getFlipperStatus env is s)) = shamrockId s"
  "slitIsPresent (snd (getFlipperStatus env is s)) = slitIsPresent s"
  "flipperMirrorIsPresent (snd (getFlipperStatus env is s)) = flipperMirrorIsPresent s"
  "numPixels (snd (getFlipperStatus env is s)) = numPixels s"
  "calibration (snd (getFlipperStatus env is s)) = calibration s"
  "published (snd (getFlipperStatus env is s)) = published s"
  by (induction "is" arbitrary: s; simp add: case_prod_beta)+

lemma getSlitWidths_fields [simp]:
  "shamrockId (snd (getSlitWidths env is s)) = shamrockId s"
  "slitIsPresent (snd (getSlitWidths env is s)) = slitIsPresent s"
  "flipperMirrorIsPresent (snd (getSlitWidths env is s)) = flipperMirrorIsPresent s"
  "numPixels (snd (getSlitWidths env is s)) = numPixels s"
  "calibration (snd (getSlitWidths env is s)) = calibration s"
  "published (snd (getSlitWidths env is s)) = published s"
  by (induction "is" arbitrary: s; simp add: case_prod_beta Let_def)+

lemma getGratingWavelength_fields [simp]:
  "shamrockId (snd (getGratingWavelength env s)) = shamrockId s"
  "slitIsPresent (snd (getGratingWavelength env s)) = slitIsPresent s"
  "flipperMirrorIsPresent (snd (getGratingWavelength env s)) = flipperMirrorIsPresent s"
  "numPixels (snd (getGratingWavelength env s)) = numPixels s"
  "calibration (snd (getGratingWavelength env s)) = calibration s"
  "published (snd (getGratingWavelength env s)) = published s"
  by (simp_all add: getGratingWavelength_def case_prod_beta Let_def)

lemma getCalibration_members:
  "getCalibration env s = Inr (st, s') \<Longrightarrow> sameMembers s s'"
  by (auto simp: getCalibration_def sameMembers_def case_prod_beta Let_def split: if_splits)

lemma getStatus_members:
  "getStatus env s = Inr (st, s') \<Longrightarrow> sameMembers s s'"
  by (auto simp: getStatus_def case_prod_beta sameMembers_def split: if_splits
           dest!: getCalibration_members)


subsection \<open>Traces\<close>

lemma allOk_append: "allOk env h (a @ b) = (allOk env h a \<and> allOk env (h @ a) b)"
  by (induction a arbitrary: h) auto

lemma succeeded_append:
  "succeeded env R h (a @ b) = (succeeded env R h a \<and> succeeded env R (h @ a) b)"
  by (induction a arbitrary: h) auto

lemma readTrace_nil [simp]: "readTrace env R h asynSuccess []"
  by (simp add: readTrace_def)

lemma readTrace_fail:
  "\<not> callOk env h c \<Longrightarrow> R c \<Longrightarrow> readTrace env R h asynError [c, errorLookup env h c]"
  unfolding readTrace_def by (auto intro!: exI [of _ "[]"])

lemma readTrace_step:
  assumes "callOk env h c" "R c" "readTrace env R (h @ [c]) st cs"
  shows "readTrace env R h st (c # cs)"
proof (cases "st = asynSuccess")
  case True
  with assms show ?thesis by (simp add: readTrace_def)
next
  case False
  with assms obtain pre d where
    d: "cs = pre @ [d, errorLookup env ((h @ [c]) @ pre) d]" "allOk env (h @ [c]) pre"
       "list_all R pre" "R d" "\<not> callOk env ((h @ [c]) @ pre) d" "st = asynError"
    by (auto simp: readTrace_def)
  have "c # cs = (c # pre) @ [d, errorLookup env (h @ c # pre) d]"
    using d(1) by simp
  moreover have "allOk env h (c # pre)" "list_all R (c # pre)" "\<not> callOk env (h @ c # pre) d"
    using d assms by simp_all
  ultimately show ?thesis
    using False d(4,6) unfolding readTrace_def by (auto intro!: exI [of _ "c # pre"])
qed

lemma readTrace_append:
  "readTrace env R h asynSuccess a \<Longrightarrow> readTrace env R (h @ a) st b
     \<Longrightarrow> readTrace env R h st (a @ b)"
proof (induction a arbitrary: h)
  case Nil
  then show ?case by simp
next
  case (Cons c a)
  from Cons.prems(1) have c: "callOk env h c" "R c" "readTrace env R (h @ [c]) asynSuccess a"
    by (simp_all add: readTrace_def)
  from Cons.prems(2) have "readTrace env R ((h @ [c]) @ a) st b" by simp
  with Cons.IH c(3) have "readTrace env R (h @ [c]) st (a @ b)" by blast
  with c show ?case by (simp add: readTrace_step)
qed

lemma readTrace_status: "readTrace env R h st cs \<Longrightarrow> st = asynSuccess \<or> st = asynError"
  by (auto simp: readTrace_def split: if_splits)

text \<open>A failed refresh contradicts the success of the reads of its kind.\<close>

lemma readTrace_error_not_succeeded:
  assumes "readTrace env R h asynError cs"
  shows "\<not> succeeded env R h cs"
proof -
  from assms obtain pre c where
    c: "cs = pre @ [c, errorLookup env (h @ pre) c]" "R c" "\<not> callOk env (h @ pre) c"
    by (auto simp: readTrace_def)
  then show ?thesis by (simp add: succeeded_append)
qed

lemma readTrace_error_not_allOk:
  assumes "readTrace env R h asynError cs"
  shows "\<not> allOk env h cs"
proof -
  from assms obtain pre c where
    c: "cs = pre @ [c, errorLookup env (h @ pre) c]" "\<not> callOk env (h @ pre) c"
    by (auto simp: readTrace_def)
  then show ?thesis by (simp add: allOk_append)
qed

lemma readTrace_calls:
  assumes "readTrace env R h st cs" "x \<in> set cs"
  shows "R x \<or> (\<exists>n. x = ATSpectrographGetFunctionReturnDescription n)"
  using assms unfolding readTrace_def errorLookup_def
  by (auto simp: list_all_iff split: if_splits)

lemma getFlipperStatus_trace:
  assumes "\<And>i j. R (ATSpectrographGetFlipperMirror i j)"
  shows "\<exists>cs. sdkLog (snd (getFlipperStatus env is s)) = sdkLog s @ cs
             \<and> readTrace env R (sdkLog s) (fst (getFlipperStatus env is s)) cs"
proof (induction "is" arbitrary: s)
  case Nil
  show ?case by simp
next
  case (Cons i "is")
  let ?c = "ATSpectrographGetFlipperMirror (shamrockId s) (int i + 1)"
  show ?case
  proof (cases "flipperMirrorIsPresent s i")
    case False
    with Cons.IH [of s] show ?thesis by simp
  next
    case present: True
    show ?thesis
    proof (cases "callOk env (sdkLog s) ?c")
      case False
      have "readTrace env R (sdkLog s) asynError [?c, errorLookup env (sdkLog s) ?c]"
        using False assms by (intro readTrace_fail)
      with False present show ?thesis
        by (simp add: case_prod_beta callOk_def errorLookup_def)
    next
      case True
      let ?s2 = "snd (setIntegerParam env (int i) SRFlipperMirrorPort
                        (ival (devReply env (sdkLog s) ?c))
                        (snd (checkError env (rcode (devReply env (sdkLog s) ?c))
                               (snd (sdkCall env ?c s)))))"
      from Cons.IH [of ?s2] obtain cs where
        cs: "sdkLog (snd (getFlipperStatus env is ?s2)) = sdkLog ?s2 @ cs"
            "readTrace env R (sdkLog ?s2) (fst (getFlipperStatus env is ?s2)) cs"
        by blast
      have l: "sdkLog ?s2 = sdkLog s @ [?c]"
        using True by (simp add: callOk_def)
      have "readTrace env R (sdkLog s) (fst (getFlipperStatus env is ?s2)) (?c # cs)"
        by (rule readTrace_step) (use cs(2) True assms l in simp_all)
      moreover have "getFlipperStatus env (i # is) s = getFlipperStatus env is ?s2"
        using True present by (simp add: case_prod_beta callOk_def)
      ultimately show ?thesis
        using cs(1) l by simp
    qed
  qed
qed


lemma getSlitWidths_trace:
  assumes "\<And>i j. j \<in> (\<lambda>i. int i + 1) ` set is \<Longrightarrow> R (ATSpectrographGetSlitWidth i j)"
  shows "\<exists>cs. sdkLog (snd (getSlitWidths env is s)) = sdkLog s @ cs
             \<and> readTrace env R (sdkLog s) (fst (getSlitWidths env is s)) cs"
  using assms
proof (induction "is" arbitrary: s)
  case Nil
  show ?case by simp
next
  case (Cons i "is")
  let ?s0 = "snd (setDoubleParam env (int i) SRSlitSize 0 s)"
  let ?c = "ATSpectrographGetSlitWidth (shamrockId s) (int i + 1)"
  have R: "R ?c" by (rule Cons.prems) simp
  have R': "\<And>i j. j \<in> (\<lambda>i. int i + 1) ` set is \<Longrightarrow> R (ATSpectrographGetSlitWidth i j)"
    by (rule Cons.prems) auto
  show ?case
  proof (cases "slitIsPresent s i")
    case False
    with Cons.IH [of ?s0, OF R'] show ?thesis by (simp add: Let_def)
  next
    case present: True
    show ?thesis
    proof (cases "callOk env (sdkLog s) ?c")
      case False
      have "readTrace env R (sdkLog s) asynError [?c, errorLookup env (sdkLog s) ?c]"
        using False R by (intro readTrace_fail)
      with False present show ?thesis
        by (simp add: case_prod_beta callOk_def errorLookup_def Let_def)
    next
      case True
      let ?s2 = "snd (setDoubleParam env (int i) SRSlitSize
                        (fval (devReply env (sdkLog s) ?c))
                        (snd (checkError env (rcode (devReply env (sdkLog s) ?c))
                               (snd (sdkCall env ?c ?s0)))))"
      from Cons.IH [of ?s2, OF R'] obtain cs where
        cs: "sdkLog (snd (getSlitWidths env is ?s2)) = sdkLog ?s2 @ cs"
            "readTrace env R (sdkLog ?s2) (fst (getSlitWidths env is ?s2)) cs"
        by blast
      have l: "sdkLog ?s2 = sdkLog s @ [?c]"
        using True by (simp add: callOk_def)
      have "readTrace env R (sdkLog s) (fst (getSlitWidths env is ?s2)) (?c # cs)"
        by (rule readTrace_step) (use cs(2) True R l in simp_all)
      moreover have "getSlitWidths env (i # is) s = getSlitWidths env is ?s2"
        using True present by (simp add: case_prod_beta callOk_def Let_def)
      ultimately show ?thesis
        using cs(1) l by simp
    qed
  qed
qed

lemma getGratingWavelength_trace:
  assumes "\<And>i. R (ATSpectrographGetGrating i)" "\<And>i. R (ATSpectrographGetWavelength i)"
  shows "\<exists>cs. sdkLog (snd (getGratingWavelength env s)) = sdkLog s @ cs
             \<and> readTrace env R (sdkLog s) (fst (getGratingWavelength env s)) cs"
proof -
  let ?c1 = "ATSpectrographGetGrating (shamrockId s)"
  let ?c2 = "ATSpectrographGetWavelength (shamrockId s)"
  show ?thesis
  proof (cases "callOk env (sdkLog s) ?c1")
    case False
    have "readTrace env R (sdkLog s) asynError [?c1, errorLookup env (sdkLog s) ?c1]"
      using False assms by (intro readTrace_fail)
    with False show ?thesis
      by (simp add: getGratingWavelength_def case_prod_beta callOk_def errorLookup_def Let_def)
  next
    case ok1: True
    show ?thesis
    proof (cases "callOk env (sdkLog s @ [?c1]) ?c2")
      case False
      have f: "readTrace env R (sdkLog s @ [?c1]) asynError
              [?c2, errorLookup env (sdkLog s @ [?c1]) ?c2]"
        using False assms by (intro readTrace_fail)
      have "readTrace env R (sdkLog s) asynError
              [?c1, ?c2, errorLookup env (sdkLog s @ [?c1]) ?c2]"
        by (rule readTrace_step) (use f ok1 assms in simp_all)
      with False ok1 show ?thesis
        by (simp add: getGratingWavelength_def case_prod_beta callOk_def errorLookup_def Let_def)
    next
      case True
      have "readTrace env R (sdkLog s) asynSuccess [?c1, ?c2]"
        using True ok1 assms by (simp add: readTrace_def)
      with True ok1 show ?thesis
        by (simp add: getGratingWavelength_def case_prod_beta callOk_def Let_def)
    qed
  qed
qed

lemma getCalibration_trace:
  assumes "getCalibration env s = Inr (st, s')" "\<And>i n. R (ATSpectrographGetCalibration i n)"
  shows "\<exists>cs. sdkLog s' = sdkLog s @ cs \<and> readTrace env R (sdkLog s) st cs"
proof -
  let ?c = "ATSpectrographGetCalibration (shamrockId s) (numPixels s)"
  show ?thesis
  proof (cases "callOk env (sdkLog s) ?c")
    case False
    have "readTrace env R (sdkLog s) asynError [?c, errorLookup env (sdkLog s) ?c]"
      using False assms(2) by (intro readTrace_fail)
    with False assms(1) show ?thesis
      by (auto simp: getCalibration_def case_prod_beta callOk_def errorLookup_def Let_def)
  next
    case True
    have "readTrace env R (sdkLog s) asynSuccess [?c]"
      using True assms(2) by (simp add: readTrace_def)
    with True assms(1) show ?thesis
      by (auto simp: getCalibration_def case_prod_beta callOk_def Let_def split: if_splits)
  qed
qed

lemma getCalibration_published:
  assumes "getCalibration env s = Inr (st, s')"
  shows "published s' =
           (if st = asynSuccess
            then published s @ map (\<lambda>i. ParamCallbacks (int i)) [0..<MAX_ADDR]
                 @ [Float32ArrayCallbacks (calibration s') (numPixels s') SRCalibration 0]
            else published s)"
  using assms
  by (auto simp: getCalibration_def case_prod_beta Let_def split: if_splits)

text \<open>The phases of \<open>getStatus\<close>, one after the other.\<close>

lemma getStatus_cases:
  assumes "getStatus env s = Inr (st, s')"
  obtains
    (mirror) "fst (getFlipperStatus env [0..<MAX_FLIPPER_MIRRORS] s) \<noteq> asynSuccess"
      "st = asynError" "s' = snd (getFlipperStatus env [0..<MAX_FLIPPER_MIRRORS] s)"
  | (grating) "fst (getFlipperStatus env [0..<MAX_FLIPPER_MIRRORS] s) = asynSuccess"
      "fst (getGratingWavelength env (snd (getFlipperStatus env [0..<MAX_FLIPPER_MIRRORS] s)))
         \<noteq> asynSuccess"
      "st = asynError"
      "s' = snd (getGratingWavelength env (snd (getFlipperStatus env [0..<MAX_FLIPPER_MIRRORS] s)))"
  | (slit) "fst (getFlipperStatus env [0..<MAX_FLIPPER_MIRRORS] s) = asynSuccess"
      "fst (getGratingWavelength env (snd (getFlipperStatus env [0..<MAX_FLIPPER_MIRRORS] s)))
         = asynSuccess"
      "fst (getSlitWidths env [0..<MAX_SLITS]
              (snd (getGratingWavelength env
                      (snd (getFlipperStatus env [0..<MAX_FLIPPER_MIRRORS] s))))) \<noteq> asynSuccess"
      "st = asynError"
      "s' = snd (getSlitWidths env [0..<MAX_SLITS]
                   (snd (getGratingWavelength env
                           (snd (getFlipperStatus env [0..<MAX_FLIPPER_MIRRORS] s)))))"
  | (calibration) "fst (getFlipperStatus env [0..<MAX_FLIPPER_MIRRORS] s) = asynSuccess"
      "fst (getGratingWavelength env (snd (getFlipperStatus env [0..<MAX_FLIPPER_MIRRORS] s)))
         = asynSuccess"
      "fst (getSlitWidths env [0..<MAX_SLITS]
              (snd (getGratingWavelength env
                      (snd (getFlipperStatus env [0..<MAX_FLIPPER_MIRRORS] s))))) = asynSuccess"
      "getCalibration env
         (snd (getSlitWidths env [0..<MAX_SLITS]
                 (snd (getGratingWavelength env
                         (snd (getFlipperStatus env [0..<MAX_FLIPPER_MIRRORS] s))))))
         = Inr (st, s')"
  using assms by (auto simp: getStatus_def case_prod_beta split: if_splits)

lemma getStatus_trace:
  assumes "getStatus env s = Inr (st, s')"
    and R: "\<And>c. isRefreshRead c \<Longrightarrow> (\<forall>i j. c = ATSpectrographGetSlitWidth i j \<longrightarrow> j \<in> {1, 2, 3, 4}) \<Longrightarrow> R c"
  shows "\<exists>cs. sdkLog s' = sdkLog s @ cs \<and> readTrace env R (sdkLog s) st cs"
proof -
  let ?r1 = "getFlipperStatus env [0..<MAX_FLIPPER_MIRRORS] s"
  let ?r2 = "getGratingWavelength env (snd ?r1)"
  let ?r3 = "getSlitWidths env [0..<MAX_SLITS] (snd ?r2)"
  obtain cs1 where 1: "sdkLog (snd ?r1) = sdkLog s @ cs1" "readTrace env R (sdkLog s) (fst ?r1) cs1"
    using getFlipperStatus_trace [of R env "[0..<MAX_FLIPPER_MIRRORS]" s] R by auto
  obtain cs2 where 2: "sdkLog (snd ?r2) = sdkLog (snd ?r1) @ cs2"
      "readTrace env R (sdkLog (snd ?r1)) (fst ?r2) cs2"
    using getGratingWavelength_trace [of R env "snd ?r1"] R by auto
  have "\<And>i j. j \<in> (\<lambda>i. int i + 1) ` set [0..<MAX_SLITS] \<Longrightarrow> R (ATSpectrographGetSlitWidth i j)"
    by (rule R) (auto simp: MAX_SLITS_def)
  then obtain cs3 where 3: "sdkLog (snd ?r3) = sdkLog (snd ?r2) @ cs3"
      "readTrace env R (sdkLog (snd ?r2)) (fst ?r3) cs3"
    using getSlitWidths_trace [of "[0..<MAX_SLITS]" R env "snd ?r2"] by blast
  from assms(1) show ?thesis
  proof (cases rule: getStatus_cases)
    case mirror
    with 1 readTrace_status [OF 1(2)] show ?thesis by auto
  next
    case grating
    with 1 2 readTrace_status [OF 2(2)]
    have "readTrace env R (sdkLog s) st (cs1 @ cs2)"
      by (auto intro!: readTrace_append)
    with grating 1 2 show ?thesis by auto
  next
    case slit
    with 1 2 3 readTrace_status [OF 3(2)]
    have "readTrace env R (sdkLog s) st (cs1 @ cs2 @ cs3)"
      by (auto intro!: readTrace_append)
    with slit 1 2 3 show ?thesis by auto
  next
    case calibration
    from getCalibration_trace [OF calibration(4), of R] R obtain cs4 where
      4: "sdkLog s' = sdkLog (snd ?r3) @ cs4" "readTrace env R (sdkLog (snd ?r3)) st cs4"
      by auto
    with calibration 1 2 3
    have "readTrace env R (sdkLog s) st (cs1 @ cs2 @ cs3 @ cs4)"
      by (auto intro!: readTrace_append)
    with 1 2 3 4 show ?thesis by auto
  qed
qed

lemma getStatus_published:
  assumes "getStatus env s = Inr (st, s')"
  shows "published s' =
           (if st = asynSuccess
            then published s @ map (\<lambda>i. ParamCallbacks (int i)) [0..<MAX_ADDR]
                 @ [Float32ArrayCallbacks (calibration s') (numPixels s') SRCalibration 0]
            else published s)"
  using assms
proof (cases rule: getStatus_cases)
  case calibration
  from getCalibration_published [OF calibration(4)] show ?thesis by simp
qed simp_all


subsection \<open>What the refresh caches\<close>

lemma getFlipperStatus_params:
  "\<forall>i\<in>set is. flipperMirrorIsPresent s i \<longrightarrow> k \<noteq> (int i, SRFlipperMirrorPort)
     \<Longrightarrow> params (snd (getFlipperStatus env is s)) k = params s k"
  by (induction "is" arbitrary: s) (simp_all add: case_prod_beta)

lemma getGratingWavelength_params:
  "k \<noteq> (0, SRGrating) \<Longrightarrow> k \<noteq> (0, SRWavelength)
     \<Longrightarrow> params (snd (getGratingWavelength env s)) k = params s k"
  by (simp add: getGratingWavelength_def case_prod_beta Let_def)

lemma getSlitWidths_params:
  "\<forall>i\<in>set is. k \<noteq> (int i, SRSlitSize)
     \<Longrightarrow> params (snd (getSlitWidths env is s)) k = params s k"
  by (induction "is" arbitrary: s) (simp_all add: case_prod_beta Let_def)

lemma getCalibration_params:
  "getCalibration env s = Inr (st, s') \<Longrightarrow> k \<noteq> (0, SRMinWavelength) \<Longrightarrow> k \<noteq> (0, SRMaxWavelength)
     \<Longrightarrow> params s' k = params s k"
  by (auto simp: getCalibration_def case_prod_beta Let_def split: if_splits)

lemma getStatus_params:
  assumes "getStatus env s = Inr (st, s')"
    and "\<forall>i<MAX_FLIPPER_MIRRORS. flipperMirrorIsPresent s i \<longrightarrow> k \<noteq> (int i, SRFlipperMirrorPort)"
    and "k \<noteq> (0, SRGrating)" "k \<noteq> (0, SRWavelength)" "snd k \<noteq> SRSlitSize"
    and "k \<noteq> (0, SRMinWavelength)" "k \<noteq> (0, SRMaxWavelength)"
  shows "params s' k = params s k"
proof -
  have f: "\<forall>i\<in>set [0..<MAX_FLIPPER_MIRRORS]. flipperMirrorIsPresent s i
             \<longrightarrow> k \<noteq> (int i, SRFlipperMirrorPort)"
    using assms(2) by simp
  have w: "\<forall>i\<in>set [0..<MAX_SLITS]. k \<noteq> (int i, SRSlitSize)"
    using assms(5) by auto
  from assms(1) show ?thesis
  proof (cases rule: getStatus_cases)
    case calibration
    from getCalibration_params [OF calibration(4) assms(6,7)] show ?thesis
      by (simp add: getSlitWidths_params [OF w] getGratingWavelength_params [OF assms(3,4)]
            getFlipperStatus_params [OF f])
  qed (simp_all add: getSlitWidths_params [OF w] getGratingWavelength_params [OF assms(3,4)]
         getFlipperStatus_params [OF f])
qed

lemma getCalibration_edges:
  assumes "getCalibration env s = Inr (asynSuccess, s')"
    and "hostSet env 0 SRMinWavelength asynParamFloat64 = asynSuccess"
    and "hostSet env 0 SRMaxWavelength asynParamFloat64 = asynSuccess"
  shows "params s' (0, SRMinWavelength) = Some (PDouble (calibration s' ! 0))"
    and "params s' (0, SRMaxWavelength) = Some (PDouble (calibration s' ! nat (numPixels s' - 1)))"
    and "0 < numPixels s'" and "nat (numPixels s') \<le> length (calibration s')"
    and "calibration s' =
           fill (calibration s)
             (take (nat (numPixels s))
                (farr (devReply env (sdkLog s)
                         (ATSpectrographGetCalibration (shamrockId s) (numPixels s)))))"
    and "sdkLog s' = sdkLog s @ [ATSpectrographGetCalibration (shamrockId s) (numPixels s)]"
  using assms
  by (auto simp: getCalibration_def case_prod_beta Let_def split: if_splits)

lemma getStatus_total:
  assumes "0 < numPixels s" "nat (numPixels s) \<le> length (calibration s)"
  shows "\<exists>st s'. getStatus env s = Inr (st, s')"
  using assms
  by (auto simp: getStatus_def getCalibration_def case_prod_beta Let_def)


subsection \<open>The two write handlers\<close>

lemma addrOf_record [simp]:
  "addrOf \<lparr>reason = p, userAddr = a\<rparr> = (if a < 0 then 0 else a)"
  by (simp add: addrOf_def)

lemma writeInt32_Inr:
  assumes "writeInt32 env u v s = Inr (st, s')"
  obtains s1 r s2 where "forwardInt32 env u v s = Inr (st, s1)" "getStatus env s1 = Inr (r, s2)"
    "s' = callParamCallbacks (addrOf u) s2"
  using assms by (auto simp: writeInt32_def Let_def split: sum.splits prod.splits)

lemma writeFloat64_Inr:
  assumes "writeFloat64 env u v s = Inr (st, s')"
  obtains s1 r s2 where "forwardFloat64 env u v s = Inr (st, s1)" "getStatus env s1 = Inr (r, s2)"
    "s' = callParamCallbacks (addrOf u) s2"
  using assms by (auto simp: writeFloat64_def Let_def split: sum.splits prod.splits)

lemma forwardInt32_members:
  assumes "forwardInt32 env u v s = Inr (st, s1)"
  shows "shamrockId s1 = shamrockId s" "slitIsPresent s1 = slitIsPresent s"
    "flipperMirrorIsPresent s1 = flipperMirrorIsPresent s" "numPixels s1 = numPixels s"
    "calibration s1 = calibration s" "published s1 = published s"
    "params s1 = (if hostSet env (addrOf u) (reason u) asynParamInt32
                     = asynSuccess
                  then (params s)((addrOf u, reason u) \<mapsto> PInt v)
                  else params s)"
  using assms
  by (auto simp: forwardInt32_def case_prod_beta Let_def prod_eq_iff split: if_splits)

lemma forwardFloat64_members:
  assumes "forwardFloat64 env u v s = Inr (st, s1)"
  shows "shamrockId s1 = shamrockId s" "slitIsPresent s1 = slitIsPresent s"
    "flipperMirrorIsPresent s1 = flipperMirrorIsPresent s" "numPixels s1 = numPixels s"
    "calibration s1 = calibration s" "published s1 = published s"
    "params s1 = (if hostSet env (addrOf u) (reason u) asynParamFloat64
                     = asynSuccess
                  then (params s)((addrOf u, reason u) \<mapsto> PDouble v)
                  else params s)"
  using assms
  by (auto simp: forwardFloat64_def case_prod_beta Let_def prod_eq_iff split: if_splits)

text \<open>The call a write forwards, if any.\<close>

lemma forwardInt32_log:
  assumes "forwardInt32 env u v s = Inr (st, s1)"
  shows "sdkLog s1 = sdkLog s @
           (if reason u = SRGrating then
              (let c = ATSpectrographSetGrating (shamrockId s) v
               in if callOk env (sdkLog s) c then [c] else [c, errorLookup env (sdkLog s) c])
            else if reason u = SRFlipperMirrorPort
                    \<and> flipperMirrorIsPresent s (nat (addrOf u)) then
              (let c = ATSpectrographSetFlipperMirror (shamrockId s)
                         (addrOf u + 1) v
               in if callOk env (sdkLog s) c then [c] else [c, errorLookup env (sdkLog s) c])
            else [])"
  using assms
  by (auto simp: forwardInt32_def case_prod_beta Let_def callOk_def errorLookup_def prod_eq_iff
           split: if_splits)

lemma forwardFloat64_log:
  assumes "forwardFloat64 env u v s = Inr (st, s1)"
  shows "sdkLog s1 = sdkLog s @
           (if reason u = SRWavelength then
              (let c = ATSpectrographSetWavelength (shamrockId s) (toFloat env v)
               in if callOk env (sdkLog s) c then [c] else [c, errorLookup env (sdkLog s) c])
            else if reason u = SRSlitSize
                    \<and> slitIsPresent s (nat (addrOf u)) then
              (let c = ATSpectrographSetSlitWidth (shamrockId s)
                         (addrOf u + 1) (toFloat env v)
               in if callOk env (sdkLog s) c then [c] else [c, errorLookup env (sdkLog s) c])
            else [])"
  using assms
  by (auto simp: forwardFloat64_def case_prod_beta Let_def callOk_def errorLookup_def prod_eq_iff
           split: if_splits)

lemma forwardInt32_status:
  assumes "forwardInt32 env u v s = Inr (st, s1)"
  shows "st = (if reason u = SRGrating then
                 (if callOk env (sdkLog s) (ATSpectrographSetGrating (shamrockId s) v)
                  then asynSuccess else asynError)
               else if reason u = SRFlipperMirrorPort
                       \<and> flipperMirrorIsPresent s (nat (addrOf u)) then
                 (if callOk env (sdkLog s)
                       (ATSpectrographSetFlipperMirror (shamrockId s)
                          (addrOf u + 1) v)
                  then asynSuccess else asynError)
               else hostSet env (addrOf u) (reason u) asynParamInt32)"
  using assms
  by (auto simp: forwardInt32_def case_prod_beta Let_def callOk_def prod_eq_iff split: if_splits)

lemma forwardFloat64_status:
  assumes "forwardFloat64 env u v s = Inr (st, s1)"
  shows "st = (if reason u = SRWavelength then
                 (if callOk env (sdkLog s) (ATSpectrographSetWavelength (shamrockId s) (toFloat env v))
                  then asynSuccess else asynError)
               else if reason u = SRSlitSize
                       \<and> slitIsPresent s (nat (addrOf u)) then
                 (if callOk env (sdkLog s)
                       (ATSpectrographSetSlitWidth (shamrockId s)
                          (addrOf u + 1) (toFloat env v))
                  then asynSuccess else asynError)
               else hostSet env (addrOf u) (reason u) asynParamFloat64)"
  using assms
  by (auto simp: forwardFloat64_def case_prod_beta Let_def callOk_def prod_eq_iff split: if_splits)

lemma forwardInt32_total:
  "reason u = SRFlipperMirrorPort \<longrightarrow> nat (addrOf u) < MAX_FLIPPER_MIRRORS
     \<Longrightarrow> \<exists>st s1. forwardInt32 env u v s = Inr (st, s1)"
  by (auto simp: forwardInt32_def case_prod_beta Let_def)

lemma forwardFloat64_total:
  "reason u = SRSlitSize \<longrightarrow> nat (addrOf u) < MAX_SLITS
     \<Longrightarrow> \<exists>st s1. forwardFloat64 env u v s = Inr (st, s1)"
  by (auto simp: forwardFloat64_def case_prod_beta Let_def)

lemma writeInt32_total:
  assumes "reason u = SRFlipperMirrorPort \<longrightarrow>
             nat (addrOf u) < MAX_FLIPPER_MIRRORS"
    and "0 < numPixels s" "nat (numPixels s) \<le> length (calibration s)"
  shows "\<exists>st s'. writeInt32 env u v s = Inr (st, s')"
proof -
  from forwardInt32_total [OF assms(1)] obtain st s1 where
    f: "forwardInt32 env u v s = Inr (st, s1)" by blast
  from forwardInt32_members [OF f] assms(2,3) getStatus_total [of s1 env] obtain r s2 where
    "getStatus env s1 = Inr (r, s2)" by auto
  with f show ?thesis by (simp add: writeInt32_def Let_def)
qed

lemma writeFloat64_total:
  assumes "reason u = SRSlitSize \<longrightarrow>
             nat (addrOf u) < MAX_SLITS"
    and "0 < numPixels s" "nat (numPixels s) \<le> length (calibration s)"
  shows "\<exists>st s'. writeFloat64 env u v s = Inr (st, s')"
proof -
  from forwardFloat64_total [OF assms(1)] obtain st s1 where
    f: "forwardFloat64 env u v s = Inr (st, s1)" by blast
  from forwardFloat64_members [OF f] assms(2,3) getStatus_total [of s1 env] obtain r s2 where
    "getStatus env s1 = Inr (r, s2)" by auto
  with f show ?thesis by (simp add: writeFloat64_def Let_def)
qed


lemma upt_numerals: "[0..<2] = [0, 1]" "[0..<4] = [0, 1, 2, 3]"
  by (simp_all add: upt_rec)

lemmas evals = getStatus_def getGratingWavelength_def getCalibration_def
  MAX_SLITS_def MAX_FLIPPER_MIRRORS_def MAX_ADDR_def upt_numerals
  sdkCall_def checkError_def setIntegerParam_def setDoubleParam_def
  callParamCallbacks_def doCallbacksFloat32Array_def fill_def Let_def
  demoEnv_def demoReply_def demoHost_def demoDriver_def

lemmas write_evals = writeInt32_def forwardInt32_def writeFloat64_def forwardFloat64_def
  addrOf_def

lemma readFloat32Array_Inr:
  "readFloat32Array u p n k s = Inr (st, p', k', s') \<Longrightarrow> s' = s"
  by (auto simp: readFloat32Array_def Let_def split: if_splits)

subsection \<open>C9: the presence flags\<close>

text \<open>
  C9. The presence flags of the four slits and the two flipper mirrors, set by the
  constructor, are not modified afterwards: a status refresh, a \<open>writeInt32\<close>, a
  \<open>writeFloat64\<close> and a \<open>readFloat32Array\<close> that return leave \<open>slitIsPresent_\<close> and
  \<open>flipperMirrorIsPresent_\<close> as they were.
\<close>

theorem presence_flags_fixed:
  "(getStatus env s = Inr (st, s') \<longrightarrow>
      slitIsPresent s' = slitIsPresent s \<and> flipperMirrorIsPresent s' = flipperMirrorIsPresent s)
   \<and> (writeInt32 env u v s = Inr (st, s') \<longrightarrow>
      slitIsPresent s' = slitIsPresent s \<and> flipperMirrorIsPresent s' = flipperMirrorIsPresent s)
   \<and> (writeFloat64 env u w s = Inr (st, s') \<longrightarrow>
      slitIsPresent s' = slitIsPresent s \<and> flipperMirrorIsPresent s' = flipperMirrorIsPresent s)
   \<and> (readFloat32Array u p n k s = Inr (st, p', k', s') \<longrightarrow>
      slitIsPresent s' = slitIsPresent s \<and> flipperMirrorIsPresent s' = flipperMirrorIsPresent s)"
proof (intro conjI impI)
  assume "getStatus env s = Inr (st, s')"
  from getStatus_members [OF this]
  show "slitIsPresent s' = slitIsPresent s" "flipperMirrorIsPresent s' = flipperMirrorIsPresent s"
    by (simp_all add: sameMembers_def)
next
  assume "writeInt32 env u v s = Inr (st, s')"
  then obtain s1 r s2 where
    w: "forwardInt32 env u v s = Inr (st, s1)" "getStatus env s1 = Inr (r, s2)"
       "s' = callParamCallbacks (addrOf u) s2"
    by (rule writeInt32_Inr)
  from forwardInt32_members [OF w(1)] getStatus_members [OF w(2)] w(3)
  show "slitIsPresent s' = slitIsPresent s" "flipperMirrorIsPresent s' = flipperMirrorIsPresent s"
    by (simp_all add: sameMembers_def)
next
  assume "writeFloat64 env u w s = Inr (st, s')"
  then obtain s1 r s2 where
    w: "forwardFloat64 env u w s = Inr (st, s1)" "getStatus env s1 = Inr (r, s2)"
       "s' = callParamCallbacks (addrOf u) s2"
    by (rule writeFloat64_Inr)
  from forwardFloat64_members [OF w(1)] getStatus_members [OF w(2)] w(3)
  show "slitIsPresent s' = slitIsPresent s" "flipperMirrorIsPresent s' = flipperMirrorIsPresent s"
    by (simp_all add: sameMembers_def)
next
  assume "readFloat32Array u p n k s = Inr (st, p', k', s')"
  from readFloat32Array_Inr [OF this]
  show "slitIsPresent s' = slitIsPresent s" "flipperMirrorIsPresent s' = flipperMirrorIsPresent s"
    by simp_all
qed

lemma demoDriver_buffer:
  "0 < numPixels demoDriver" "nat (numPixels demoDriver) \<le> length (calibration demoDriver)"
  by (simp_all add: demoDriver_def)

theorem presence_flags_fixed_witness:
  "(\<exists>st s'. getStatus (demoEnv (\<lambda>c. False) 2) demoDriver = Inr (st, s')
       \<and> slitIsPresent s' = slitIsPresent demoDriver
       \<and> flipperMirrorIsPresent s' = flipperMirrorIsPresent demoDriver)
   \<and> (\<exists>st s'. writeInt32 (demoEnv (\<lambda>c. False) 2) \<lparr>reason = SRFlipperMirrorPort, userAddr = 1\<rparr> 2
                 demoDriver = Inr (st, s')
       \<and> slitIsPresent s' = slitIsPresent demoDriver
       \<and> flipperMirrorIsPresent s' = flipperMirrorIsPresent demoDriver)
   \<and> (\<exists>st s'. writeFloat64 (demoEnv (\<lambda>c. False) 2) \<lparr>reason = SRSlitSize, userAddr = 0\<rparr> 25
                 demoDriver = Inr (st, s')
       \<and> slitIsPresent s' = slitIsPresent demoDriver
       \<and> flipperMirrorIsPresent s' = flipperMirrorIsPresent demoDriver)
   \<and> (\<exists>st p' k' s'. readFloat32Array \<lparr>reason = SRCalibration, userAddr = 0\<rparr> [0, 0] 2 0
                 demoDriver = Inr (st, p', k', s')
       \<and> slitIsPresent s' = slitIsPresent demoDriver
       \<and> flipperMirrorIsPresent s' = flipperMirrorIsPresent demoDriver)"
proof (intro conjI)
  let ?E = "demoEnv (\<lambda>c. False) 2"
  obtain st s' where r: "getStatus ?E demoDriver = Inr (st, s')"
    using getStatus_total [OF demoDriver_buffer] by blast
  with presence_flags_fixed [where env = "?E" and s = demoDriver and st = st and s' = s']
  show "\<exists>st s'. getStatus ?E demoDriver = Inr (st, s')
       \<and> slitIsPresent s' = slitIsPresent demoDriver
       \<and> flipperMirrorIsPresent s' = flipperMirrorIsPresent demoDriver"
    by blast
next
  let ?E = "demoEnv (\<lambda>c. False) 2"
  let ?u = "\<lparr>reason = SRFlipperMirrorPort, userAddr = 1\<rparr>"
  have "\<exists>st s'. writeInt32 ?E ?u 2 demoDriver = Inr (st, s')"
    by (rule writeInt32_total) (simp_all add: demoDriver_buffer MAX_FLIPPER_MIRRORS_def)
  then obtain st s' where r: "writeInt32 ?E ?u 2 demoDriver = Inr (st, s')" by blast
  with presence_flags_fixed [where env = "?E" and s = demoDriver and st = st and s' = s' and u = "?u" and v = 2]
  show "\<exists>st s'. writeInt32 ?E ?u 2 demoDriver = Inr (st, s')
       \<and> slitIsPresent s' = slitIsPresent demoDriver
       \<and> flipperMirrorIsPresent s' = flipperMirrorIsPresent demoDriver"
    by blast
next
  let ?E = "demoEnv (\<lambda>c. False) 2"
  let ?u = "\<lparr>reason = SRSlitSize, userAddr = 0\<rparr>"
  have "\<exists>st s'. writeFloat64 ?E ?u 25 demoDriver = Inr (st, s')"
    by (rule writeFloat64_total) (simp_all add: demoDriver_buffer MAX_SLITS_def)
  then obtain st s' where r: "writeFloat64 ?E ?u 25 demoDriver = Inr (st, s')" by blast
  with presence_flags_fixed [where env = "?E" and s = demoDriver and st = st and s' = s' and u = "?u" and w = 25]
  show "\<exists>st s'. writeFloat64 ?E ?u 25 demoDriver = Inr (st, s')
       \<and> slitIsPresent s' = slitIsPresent demoDriver
       \<and> flipperMirrorIsPresent s' = flipperMirrorIsPresent demoDriver"
    by blast
next
  let ?u = "\<lparr>reason = SRCalibration, userAddr = 0\<rparr>"
  have "\<exists>st p' k' s'. readFloat32Array ?u [0, 0] 2 0 demoDriver = Inr (st, p', k', s')"
    by (simp add: readFloat32Array_def size_t_of_int_def demoDriver_def)
  then obtain st p' k' s' where
    r: "readFloat32Array ?u [0, 0] 2 0 demoDriver = Inr (st, p', k', s')" by blast
  with presence_flags_fixed [where s = demoDriver and st = st and s' = s' and u = "?u" and p = "[0, 0]" and n = 2 and k = 0 and p' = p' and k' = k']
  show "\<exists>st p' k' s'. readFloat32Array ?u [0, 0] 2 0 demoDriver = Inr (st, p', k', s')
       \<and> slitIsPresent s' = slitIsPresent demoDriver
       \<and> flipperMirrorIsPresent s' = flipperMirrorIsPresent demoDriver"
    by blast
qed


subsection \<open>C8: the refresh stops at the first read that fails\<close>

text \<open>
  C8. In \<open>getStatus\<close> a failure of any one SDK read (flipper-mirror port, grating,
  wavelength, slit width or calibration table) makes the routine return \<open>asynError\<close>
  at once: the failed read is the last read of the invocation, only the lookup of its
  error text follows it in the SDK log, and nothing is published. When no read fails the
  status is \<open>asynSuccess\<close>.
\<close>

theorem getStatus_fails_fast:
  assumes "getStatus env s = Inr (st, s')"
  shows "\<exists>cs. sdkLog s' = sdkLog s @ cs \<and>
           (if allOk env (sdkLog s) cs then st = asynSuccess \<and> list_all isRefreshRead cs
            else st = asynError \<and> published s' = published s \<and>
                 (\<exists>pre c. cs = pre @ [c, errorLookup env (sdkLog s @ pre) c]
                    \<and> allOk env (sdkLog s) pre \<and> list_all isRefreshRead pre
                    \<and> isRefreshRead c \<and> \<not> callOk env (sdkLog s @ pre) c))"
proof -
  from getStatus_trace [OF assms, of isRefreshRead] obtain cs where
    cs: "sdkLog s' = sdkLog s @ cs" "readTrace env isRefreshRead (sdkLog s) st cs"
    by blast
  show ?thesis
  proof (cases "st = asynSuccess")
    case True
    with cs show ?thesis by (auto simp: readTrace_def)
  next
    case False
    with cs(2) have e: "st = asynError" by (auto dest: readTrace_status)
    with cs(2) have "\<not> allOk env (sdkLog s) cs" by (auto dest: readTrace_error_not_allOk)
    moreover from getStatus_published [OF assms] e have "published s' = published s" by simp
    ultimately show ?thesis
      using cs e by (auto simp: readTrace_def)
  qed
qed

theorem getStatus_fails_fast_witness:
  "\<exists>s'. getStatus (demoEnv (\<lambda>c. c = ATSpectrographGetWavelength 0) 2) demoDriver
           = Inr (asynError, s')
        \<and> sdkLog s' = [ATSpectrographGetFlipperMirror 0 2, ATSpectrographGetGrating 0,
                        ATSpectrographGetWavelength 0,
                        ATSpectrographGetFunctionReturnDescription 20201]
        \<and> published s' = published demoDriver"
proof -
  let ?E = "demoEnv (\<lambda>c. c = ATSpectrographGetWavelength 0) 2"
  obtain st s' where r: "getStatus ?E demoDriver = Inr (st, s')"
    using getStatus_total [OF demoDriver_buffer] by blast
  then have l: "sdkLog s' = [ATSpectrographGetFlipperMirror 0 2, ATSpectrographGetGrating 0,
                        ATSpectrographGetWavelength 0,
                        ATSpectrographGetFunctionReturnDescription 20201]"
    by (auto simp: evals)
  have d: "sdkLog demoDriver = []"
    by (simp add: demoDriver_def)
  have n: "\<not> allOk ?E [] [ATSpectrographGetFlipperMirror 0 2, ATSpectrographGetGrating 0,
                        ATSpectrographGetWavelength 0,
                        ATSpectrographGetFunctionReturnDescription 20201]"
    by (simp add: callOk_def demoEnv_def demoReply_def)
  from getStatus_fails_fast [OF r] l d n
  have "st = asynError \<and> published s' = published demoDriver"
    by auto
  with r l show ?thesis by blast
qed

subsection \<open>C3: the wavelength range is the two edges of the calibration table\<close>

text \<open>
  C3. After a status refresh that returns \<open>asynSuccess\<close> (the host accepting the two
  writes), the minimum wavelength cached at address 0 is entry 0 of the calibration table
  and the maximum wavelength cached at address 0 is its entry \<open>numPixels_ - 1\<close>; both
  indices are inside the table, and the table is what the last SDK call of the refresh,
  \<open>ATSpectrographGetCalibration\<close>, wrote into the buffer. No other value is computed.
\<close>

theorem refresh_caches_calibration_edges:
  assumes "getStatus env s = Inr (asynSuccess, s')"
    and "hostSet env 0 SRMinWavelength asynParamFloat64 = asynSuccess"
    and "hostSet env 0 SRMaxWavelength asynParamFloat64 = asynSuccess"
  shows "params s' (0, SRMinWavelength) = Some (PDouble (calibration s' ! 0))
       \<and> params s' (0, SRMaxWavelength) = Some (PDouble (calibration s' ! nat (numPixels s' - 1)))
       \<and> 0 < numPixels s' \<and> nat (numPixels s') \<le> length (calibration s')
       \<and> last (sdkLog s') = ATSpectrographGetCalibration (shamrockId s) (numPixels s)
       \<and> calibration s' =
           fill (calibration s)
             (take (nat (numPixels s)) (farr (devReply env (butlast (sdkLog s')) (last (sdkLog s')))))"
  using assms(1)
proof (cases rule: getStatus_cases)
  case calibration
  from getCalibration_edges [OF calibration(4) assms(2,3)] show ?thesis
    by simp
qed simp_all

theorem refresh_caches_calibration_edges_witness:
  "\<exists>s'. getStatus (demoEnv (\<lambda>c. False) 2) demoDriver = Inr (asynSuccess, s')
        \<and> calibration s' = [500, 550, 600]
        \<and> params s' (0, SRMinWavelength) = Some (PDouble 500)
        \<and> params s' (0, SRMaxWavelength) = Some (PDouble 600)"
proof -
  let ?E = "demoEnv (\<lambda>c. False) 2"
  obtain st s' where r: "getStatus ?E demoDriver = Inr (st, s')"
    using getStatus_total [OF demoDriver_buffer] by blast
  then have e: "st = asynSuccess" "calibration s' = [500, 550, 600]" "numPixels s' = 3"
    by (auto simp: evals)
  have h: "hostSet ?E 0 SRMinWavelength asynParamFloat64 = asynSuccess"
          "hostSet ?E 0 SRMaxWavelength asynParamFloat64 = asynSuccess"
    by (simp_all add: demoEnv_def demoHost_def MAX_ADDR_def)
  from refresh_caches_calibration_edges [OF r [unfolded e(1)] h] e
  have "params s' (0, SRMinWavelength) = Some (PDouble 500)
        \<and> params s' (0, SRMaxWavelength) = Some (PDouble 600)"
    by simp
  with r e show ?thesis by blast
qed

subsection \<open>C4: reading the calibration array back\<close>

text \<open>
  C4. A read of the calibration array with capacity \<open>nElements\<close> copies exactly
  \<open>min nElements numPixels_\<close> elements of the cached buffer to the front of the caller's
  array and reports that count in \<open>nIn\<close>; the driver, and with it the log of SDK calls,
  is as before. The count is at most \<open>nElements\<close> and at most the pixel count. (The
  buffer holds \<open>numPixels_\<close> elements, as allocated by the constructor, and the caller's
  array holds at least \<open>nElements\<close>.)
\<close>

theorem readFloat32Array_copies_min:
  assumes "reason u = SRCalibration"
    and "0 \<le> numPixels s" "numPixels s < 2 ^ 64" "length (calibration s) = nat (numPixels s)"
    and "nElements \<le> length pValue"
  shows "readFloat32Array u pValue nElements nIn s =
           Inr (asynSuccess,
                take (min nElements (nat (numPixels s))) (calibration s)
                  @ drop (min nElements (nat (numPixels s))) pValue,
                min nElements (nat (numPixels s)), s)
       \<and> min nElements (nat (numPixels s)) \<le> nElements
       \<and> int (min nElements (nat (numPixels s))) \<le> numPixels s"
  using assms
  by (auto simp: readFloat32Array_def size_t_of_int_def Let_def min_def)

theorem readFloat32Array_copies_min_witness:
  "readFloat32Array \<lparr>reason = SRCalibration, userAddr = 0\<rparr> [0, 0] 2 0 demoDriver =
     Inr (asynSuccess, [500, 550], 2, demoDriver)"
  using readFloat32Array_copies_min
          [of "\<lparr>reason = SRCalibration, userAddr = 0\<rparr>" demoDriver 2 "[0, 0]" 0]
  by (simp add: demoDriver_def)

subsection \<open>C7: a constructor that fails at start-up\<close>

lemma inertDriver_eq:
  "shamrock_ctor (demoEnv (\<lambda>c. True) 2) 0 ''bad.ini'' demoMem = Inr inertDriver"
  "inertDriver =
     \<lparr>shamrockId = 0, slitIsPresent = (\<lambda>i. False), numPixels = 0, calibration = [],
      lastError = ''failed'', flipperMirrorIsPresent = (\<lambda>i. False), params = Map.empty,
      sdkLog = [ATSpectrographInitialize ''bad.ini'',
                ATSpectrographGetFunctionReturnDescription 20201],
      published = []\<rparr>"
  by (simp_all add: inertDriver_def shamrock_ctor_def sdkCall_def checkError_def demoEnv_def
        demoReply_def demoMem_def)

text \<open>
  C7, as stated: when the SDK fails at start-up the constructor returns before any
  presence query, status refresh or publication, the instance is inert and no parameter
  value is ever published. The first half holds; the second does not outlast the
  constructor. The write handlers have no guard (lines 340, 356, 362): on the instance
  left by a failed \<open>ATSpectrographInitialize\<close>, a \<open>writeInt32\<close> of the number of
  gratings caches the value, runs the refresh (whose grating read fails), publishes
  address 0 and returns \<open>asynSuccess\<close>.
\<close>

theorem inert_instance_publishes:
  "\<not> callOk (demoEnv (\<lambda>c. True) 2) (sdkLog demoMem) (ATSpectrographInitialize ''bad.ini'')
   \<and> shamrock_ctor (demoEnv (\<lambda>c. True) 2) 0 ''bad.ini'' demoMem = Inr inertDriver
   \<and> published inertDriver = []
   \<and> \<not> isl (writeInt32 (demoEnv (\<lambda>c. True) 2) \<lparr>reason = SRNumGratings, userAddr = 0\<rparr> 5
               inertDriver)
   \<and> fst (projr (writeInt32 (demoEnv (\<lambda>c. True) 2) \<lparr>reason = SRNumGratings, userAddr = 0\<rparr> 5
                    inertDriver)) = asynSuccess
   \<and> params (snd (projr (writeInt32 (demoEnv (\<lambda>c. True) 2)
                            \<lparr>reason = SRNumGratings, userAddr = 0\<rparr> 5 inertDriver)))
        (0, SRNumGratings) = Some (PInt 5)
   \<and> published (snd (projr (writeInt32 (demoEnv (\<lambda>c. True) 2)
                               \<lparr>reason = SRNumGratings, userAddr = 0\<rparr> 5 inertDriver)))
        = [ParamCallbacks 0]"
proof -
  let ?E = "demoEnv (\<lambda>c. True) 2"
  obtain r where r: "writeInt32 ?E \<lparr>reason = SRNumGratings, userAddr = 0\<rparr> 5 inertDriver = r"
    by simp
  then have "case r of Inl f \<Rightarrow> False
             | Inr (st, s') \<Rightarrow> st = asynSuccess
                 \<and> params s' (0, SRNumGratings) = Some (PInt 5)
                 \<and> published s' = [ParamCallbacks 0]"
    by (auto simp: inertDriver_eq(2) write_evals evals)
  then have "\<not> isl r \<and> fst (projr r) = asynSuccess
             \<and> params (snd (projr r)) (0, SRNumGratings) = Some (PInt 5)
             \<and> published (snd (projr r)) = [ParamCallbacks 0]"
    by (cases r) auto
  moreover have "\<not> callOk ?E (sdkLog demoMem) (ATSpectrographInitialize ''bad.ini'')"
    by (simp add: callOk_def demoEnv_def demoReply_def)
  moreover have "published inertDriver = []"
    by (simp add: inertDriver_eq(2))
  ultimately show ?thesis
    using inertDriver_eq(1) unfolding r by blast
qed

text \<open>
  C7, amended: when \<open>ATSpectrographInitialize\<close> fails, or
  \<open>ATSpectrographGetNumberDevices\<close> fails, or fewer than one device is found, the
  constructor returns before any presence query, status refresh or publication: when it
  returns, the SDK log holds only these calls (and the lookup of the error text), nothing
  has been published, the parameter library holds no value, and the members are as
  allocated.
\<close>

theorem ctor_inert_on_startup_failure:
  assumes "\<not> callOk env (sdkLog mem) (ATSpectrographInitialize iniPath)
           \<or> \<not> callOk env (sdkLog mem @ [ATSpectrographInitialize iniPath])
                  ATSpectrographGetNumberDevices
           \<or> ival (devReply env (sdkLog mem @ [ATSpectrographInitialize iniPath])
                     ATSpectrographGetNumberDevices) < 1"
  shows "\<exists>s'. shamrock_ctor env shamrockID iniPath mem = Inr s'
           \<and> published s' = published mem \<and> params s' = Map.empty
           \<and> sdkLog s' = sdkLog mem @
               (if \<not> callOk env (sdkLog mem) (ATSpectrographInitialize iniPath) then
                  [ATSpectrographInitialize iniPath,
                   errorLookup env (sdkLog mem) (ATSpectrographInitialize iniPath)]
                else if \<not> callOk env (sdkLog mem @ [ATSpectrographInitialize iniPath])
                            ATSpectrographGetNumberDevices then
                  [ATSpectrographInitialize iniPath, ATSpectrographGetNumberDevices,
                   errorLookup env (sdkLog mem @ [ATSpectrographInitialize iniPath])
                     ATSpectrographGetNumberDevices]
                else [ATSpectrographInitialize iniPath, ATSpectrographGetNumberDevices])
           \<and> slitIsPresent s' = slitIsPresent mem
           \<and> flipperMirrorIsPresent s' = flipperMirrorIsPresent mem
           \<and> numPixels s' = numPixels mem \<and> calibration s' = calibration mem"
  using assms
  by (auto simp: shamrock_ctor_def case_prod_beta Let_def callOk_def errorLookup_def)

theorem ctor_inert_on_startup_failure_witness:
  "\<exists>s'. shamrock_ctor (demoEnv (\<lambda>c. c = ATSpectrographInitialize ''bad.ini'') 2) 0 ''bad.ini''
           demoMem = Inr s'
        \<and> published s' = [] \<and> params s' = Map.empty
        \<and> sdkLog s' = [ATSpectrographInitialize ''bad.ini'',
                        ATSpectrographGetFunctionReturnDescription 20201]"
proof -
  let ?E = "demoEnv (\<lambda>c. c = ATSpectrographInitialize ''bad.ini'') 2"
  have n: "\<not> callOk ?E (sdkLog demoMem) (ATSpectrographInitialize ''bad.ini'')"
    by (simp add: callOk_def demoEnv_def demoReply_def)
  have m: "sdkLog demoMem = []" "published demoMem = []"
    by (simp_all add: demoMem_def)
  have e: "errorLookup ?E [] (ATSpectrographInitialize ''bad.ini'')
             = ATSpectrographGetFunctionReturnDescription 20201"
    by (simp add: errorLookup_def demoEnv_def demoReply_def)
  from ctor_inert_on_startup_failure [of ?E demoMem "''bad.ini''" 0] n
  obtain s' where "shamrock_ctor ?E 0 ''bad.ini'' demoMem = Inr s'"
    "published s' = published demoMem" "params s' = Map.empty"
    "sdkLog s' = sdkLog demoMem @ [ATSpectrographInitialize ''bad.ini'',
                   errorLookup ?E (sdkLog demoMem) (ATSpectrographInitialize ''bad.ini'')]"
    by auto
  then show ?thesis
    unfolding m e by auto
qed


subsection \<open>C10: the status a write returns\<close>

text \<open>
  C10, as stated: the status of a write reflects only the provisional write and the
  forwarded set-call, the result of the refresh is dropped, and so every write whose
  set-call succeeds, or whose kind the handler does not act on, returns success. The last
  part fails: for such a kind the status is that of the provisional \<open>setIntegerParam\<close>
  (line 340), and the host refuses an integer write to the float64 parameter
  \<open>SR_WAVELENGTH\<close> and a write with a reason code it never handed out.
\<close>

theorem unacted_kind_write_fails:
  "reason \<lparr>reason = SRWavelength, userAddr = 0\<rparr> \<noteq> SRGrating
   \<and> reason \<lparr>reason = SRWavelength, userAddr = 0\<rparr> \<noteq> SRFlipperMirrorPort
   \<and> \<not> isl (writeInt32 (demoEnv (\<lambda>c. False) 2) \<lparr>reason = SRWavelength, userAddr = 0\<rparr> 5
               demoDriver)
   \<and> fst (projr (writeInt32 (demoEnv (\<lambda>c. False) 2) \<lparr>reason = SRWavelength, userAddr = 0\<rparr> 5
                    demoDriver)) = asynParamWrongType
   \<and> \<not> isl (writeInt32 (demoEnv (\<lambda>c. False) 2) \<lparr>reason = OtherParam 99, userAddr = 0\<rparr> 5
               demoDriver)
   \<and> fst (projr (writeInt32 (demoEnv (\<lambda>c. False) 2) \<lparr>reason = OtherParam 99, userAddr = 0\<rparr> 5
                    demoDriver)) = asynParamBadIndex"
proof -
  let ?E = "demoEnv (\<lambda>c. False) 2"
  obtain r where r: "writeInt32 ?E \<lparr>reason = SRWavelength, userAddr = 0\<rparr> 5 demoDriver = r"
    by simp
  then have "case r of Inl f \<Rightarrow> False | Inr (st, s') \<Rightarrow> st = asynParamWrongType"
    by (auto simp: write_evals evals)
  then have 1: "\<not> isl r \<and> fst (projr r) = asynParamWrongType"
    by (cases r) auto
  obtain q where q: "writeInt32 ?E \<lparr>reason = OtherParam 99, userAddr = 0\<rparr> 5 demoDriver = q"
    by simp
  then have "case q of Inl f \<Rightarrow> False | Inr (st, s') \<Rightarrow> st = asynParamBadIndex"
    by (auto simp: write_evals evals)
  then have 2: "\<not> isl q \<and> fst (projr q) = asynParamBadIndex"
    by (cases q) auto
  from 1 2 show ?thesis
    unfolding r q by simp
qed

text \<open>
  C10, amended: the status \<open>writeInt32\<close> and \<open>writeFloat64\<close> return is fixed before the
  refresh runs: it is the status of the forwarded SDK set-call when one is made, and the
  status of the provisional write into the parameter library otherwise. The status of the
  refresh (\<open>r\<close> below) is dropped, so a write whose set-call succeeds, and a write that
  forwards no call and whose provisional write the host accepted, return \<open>asynSuccess\<close>
  also when the refresh fails.
\<close>

theorem write_status_ignores_refresh:
  "(writeInt32 env u v s = Inr (st, s') \<longrightarrow>
      (\<exists>s1 r s2. getStatus env s1 = Inr (r, s2)
                  \<and> s' = callParamCallbacks (addrOf u) s2)
      \<and> st = (if reason u = SRGrating then
                 (if callOk env (sdkLog s) (ATSpectrographSetGrating (shamrockId s) v)
                  then asynSuccess else asynError)
               else if reason u = SRFlipperMirrorPort
                       \<and> flipperMirrorIsPresent s (nat (addrOf u)) then
                 (if callOk env (sdkLog s)
                       (ATSpectrographSetFlipperMirror (shamrockId s)
                          (addrOf u + 1) v)
                  then asynSuccess else asynError)
               else hostSet env (addrOf u) (reason u) asynParamInt32))
   \<and> (writeFloat64 env u w s = Inr (st, s') \<longrightarrow>
      (\<exists>s1 r s2. getStatus env s1 = Inr (r, s2)
                  \<and> s' = callParamCallbacks (addrOf u) s2)
      \<and> st = (if reason u = SRWavelength then
                 (if callOk env (sdkLog s) (ATSpectrographSetWavelength (shamrockId s) (toFloat env w))
                  then asynSuccess else asynError)
               else if reason u = SRSlitSize
                       \<and> slitIsPresent s (nat (addrOf u)) then
                 (if callOk env (sdkLog s)
                       (ATSpectrographSetSlitWidth (shamrockId s)
                          (addrOf u + 1) (toFloat env w))
                  then asynSuccess else asynError)
               else hostSet env (addrOf u) (reason u) asynParamFloat64))"
proof (intro conjI impI)
  assume a: "writeInt32 env u v s = Inr (st, s')"
  then obtain s1 r s2 where
    w: "forwardInt32 env u v s = Inr (st, s1)" "getStatus env s1 = Inr (r, s2)"
       "s' = callParamCallbacks (addrOf u) s2"
    by (rule writeInt32_Inr)
  from w(2,3)
  show "\<exists>s1 r s2. getStatus env s1 = Inr (r, s2)
                  \<and> s' = callParamCallbacks (addrOf u) s2"
    by blast
  from forwardInt32_status [OF w(1)]
  show "st = (if reason u = SRGrating then
                 (if callOk env (sdkLog s) (ATSpectrographSetGrating (shamrockId s) v)
                  then asynSuccess else asynError)
               else if reason u = SRFlipperMirrorPort
                       \<and> flipperMirrorIsPresent s (nat (addrOf u)) then
                 (if callOk env (sdkLog s)
                       (ATSpectrographSetFlipperMirror (shamrockId s)
                          (addrOf u + 1) v)
                  then asynSuccess else asynError)
               else hostSet env (addrOf u) (reason u) asynParamInt32)" .
next
  assume a: "writeFloat64 env u w s = Inr (st, s')"
  then obtain s1 r s2 where
    w: "forwardFloat64 env u w s = Inr (st, s1)" "getStatus env s1 = Inr (r, s2)"
       "s' = callParamCallbacks (addrOf u) s2"
    by (rule writeFloat64_Inr)
  from w(2,3)
  show "\<exists>s1 r s2. getStatus env s1 = Inr (r, s2)
                  \<and> s' = callParamCallbacks (addrOf u) s2"
    by blast
  from forwardFloat64_status [OF w(1)]
  show "st = (if reason u = SRWavelength then
                 (if callOk env (sdkLog s) (ATSpectrographSetWavelength (shamrockId s) (toFloat env w))
                  then asynSuccess else asynError)
               else if reason u = SRSlitSize
                       \<and> slitIsPresent s (nat (addrOf u)) then
                 (if callOk env (sdkLog s)
                       (ATSpectrographSetSlitWidth (shamrockId s)
                          (addrOf u + 1) (toFloat env w))
                  then asynSuccess else asynError)
               else hostSet env (addrOf u) (reason u) asynParamFloat64)" .
qed


text \<open>
  The grating read of the refresh fails: the refresh publishes nothing, and the three
  writes (a grating, a kind \<open>writeInt32\<close> does not act on, a wavelength) return
  \<open>asynSuccess\<close>.
\<close>

theorem write_status_ignores_refresh_witness:
  "(\<exists>s'. writeInt32 (demoEnv (\<lambda>c. c = ATSpectrographGetGrating 0) 2)
            \<lparr>reason = SRGrating, userAddr = 0\<rparr> 2 demoDriver = Inr (asynSuccess, s')
         \<and> sdkLog s' = [ATSpectrographSetGrating 0 2, ATSpectrographGetFlipperMirror 0 2,
                         ATSpectrographGetGrating 0,
                         ATSpectrographGetFunctionReturnDescription 20201]
         \<and> published s' = [ParamCallbacks 0])
   \<and> (\<exists>s'. writeInt32 (demoEnv (\<lambda>c. c = ATSpectrographGetGrating 0) 2)
            \<lparr>reason = SRNumGratings, userAddr = 0\<rparr> 5 demoDriver = Inr (asynSuccess, s')
         \<and> published s' = [ParamCallbacks 0])
   \<and> (\<exists>s'. writeFloat64 (demoEnv (\<lambda>c. c = ATSpectrographGetGrating 0) 2)
            \<lparr>reason = SRWavelength, userAddr = 0\<rparr> 500 demoDriver = Inr (asynSuccess, s')
         \<and> published s' = [ParamCallbacks 0])"
proof (intro conjI)
  let ?E = "demoEnv (\<lambda>c. c = ATSpectrographGetGrating 0) 2"
  let ?u = "\<lparr>reason = SRGrating, userAddr = 0\<rparr>"
  have "\<exists>st s'. writeInt32 ?E ?u 2 demoDriver = Inr (st, s')"
    by (rule writeInt32_total) (simp_all add: demoDriver_buffer)
  then obtain st s' where r: "writeInt32 ?E ?u 2 demoDriver = Inr (st, s')" by blast
  then have l: "sdkLog s' = [ATSpectrographSetGrating 0 2, ATSpectrographGetFlipperMirror 0 2,
                         ATSpectrographGetGrating 0,
                         ATSpectrographGetFunctionReturnDescription 20201]"
      "published s' = [ParamCallbacks 0]"
    by (auto simp: write_evals evals)
  have "callOk ?E (sdkLog demoDriver) (ATSpectrographSetGrating (shamrockId demoDriver) 2)"
    by (simp add: callOk_def demoEnv_def demoReply_def)
  with write_status_ignores_refresh
         [where env = "?E" and u = "?u" and v = 2 and s = demoDriver and st = st and s' = s'] r
  have "st = asynSuccess" by simp
  with r l show "\<exists>s'. writeInt32 ?E ?u 2 demoDriver = Inr (asynSuccess, s')
         \<and> sdkLog s' = [ATSpectrographSetGrating 0 2, ATSpectrographGetFlipperMirror 0 2,
                         ATSpectrographGetGrating 0,
                         ATSpectrographGetFunctionReturnDescription 20201]
         \<and> published s' = [ParamCallbacks 0]"
    by blast
next
  let ?E = "demoEnv (\<lambda>c. c = ATSpectrographGetGrating 0) 2"
  let ?u = "\<lparr>reason = SRNumGratings, userAddr = 0\<rparr>"
  have "\<exists>st s'. writeInt32 ?E ?u 5 demoDriver = Inr (st, s')"
    by (rule writeInt32_total) (simp_all add: demoDriver_buffer)
  then obtain st s' where r: "writeInt32 ?E ?u 5 demoDriver = Inr (st, s')" by blast
  then have l: "published s' = [ParamCallbacks 0]"
    by (auto simp: write_evals evals)
  have "hostSet ?E 0 SRNumGratings asynParamInt32 = asynSuccess"
    by (simp add: demoEnv_def demoHost_def MAX_ADDR_def)
  with write_status_ignores_refresh
         [where env = "?E" and u = "?u" and v = 5 and s = demoDriver and st = st and s' = s'] r
  have "st = asynSuccess" by simp
  with r l show "\<exists>s'. writeInt32 ?E ?u 5 demoDriver = Inr (asynSuccess, s')
         \<and> published s' = [ParamCallbacks 0]"
    by blast
next
  let ?E = "demoEnv (\<lambda>c. c = ATSpectrographGetGrating 0) 2"
  let ?u = "\<lparr>reason = SRWavelength, userAddr = 0\<rparr>"
  have "\<exists>st s'. writeFloat64 ?E ?u 500 demoDriver = Inr (st, s')"
    by (rule writeFloat64_total) (simp_all add: demoDriver_buffer)
  then obtain st s' where r: "writeFloat64 ?E ?u 500 demoDriver = Inr (st, s')" by blast
  then have l: "published s' = [ParamCallbacks 0]"
    by (auto simp: write_evals evals)
  have "callOk ?E (sdkLog demoDriver)
          (ATSpectrographSetWavelength (shamrockId demoDriver) (toFloat ?E 500))"
    by (simp add: callOk_def demoEnv_def demoReply_def)
  with write_status_ignores_refresh
         [where env = "?E" and u = "?u" and w = 500 and s = demoDriver and st = st and s' = s'] r
  have "st = asynSuccess" by simp
  with r l show "\<exists>s'. writeFloat64 ?E ?u 500 demoDriver = Inr (asynSuccess, s')
         \<and> published s' = [ParamCallbacks 0]"
    by blast
qed


subsection \<open>C5: every write runs the refresh\<close>

lemma forwardInt32_log_shape:
  assumes "forwardInt32 env u v s = Inr (st, s1)"
  shows "\<exists>fw. sdkLog s1 = sdkLog s @ fw \<and> list_all (\<lambda>c. \<not> isRefreshRead c) fw"
  using forwardInt32_log [OF assms] by (auto simp: Let_def errorLookup_def)

lemma forwardFloat64_log_shape:
  assumes "forwardFloat64 env u v s = Inr (st, s1)"
  shows "\<exists>fw. sdkLog s1 = sdkLog s @ fw \<and> list_all (\<lambda>c. \<not> isRefreshRead c) fw"
  using forwardFloat64_log [OF assms] by (auto simp: Let_def errorLookup_def)

text \<open>The refresh makes at least one read.\<close>

lemma getGratingWavelength_first_read:
  "\<exists>cs. sdkLog (snd (getGratingWavelength env s))
          = sdkLog s @ ATSpectrographGetGrating (shamrockId s) # cs"
  by (simp add: getGratingWavelength_def case_prod_beta Let_def)

lemma getStatus_first_read:
  assumes "getStatus env s = Inr (st, s')"
  shows "\<exists>c cs. sdkLog s' = sdkLog s @ c # cs \<and> isRefreshRead c"
proof -
  from getStatus_trace [OF assms, of isRefreshRead] obtain cs where
    cs: "sdkLog s' = sdkLog s @ cs" "readTrace env isRefreshRead (sdkLog s) st cs"
    by blast
  let ?r1 = "getFlipperStatus env [0..<MAX_FLIPPER_MIRRORS] s"
  obtain cs1 where 1: "sdkLog (snd ?r1) = sdkLog s @ cs1"
    using getFlipperStatus_trace [of "\<lambda>c. True" env "[0..<MAX_FLIPPER_MIRRORS]" s] by auto
  obtain cs2 where 2: "sdkLog (snd (getGratingWavelength env (snd ?r1)))
                         = sdkLog (snd ?r1) @ ATSpectrographGetGrating (shamrockId (snd ?r1)) # cs2"
    using getGratingWavelength_first_read by blast
  have "cs \<noteq> []"
  proof (cases "st = asynSuccess")
    case False
    with cs(2) show ?thesis by (auto simp: readTrace_def)
  next
    case True
    with assms have "length (sdkLog (snd (getGratingWavelength env (snd ?r1)))) \<le> length (sdkLog s')"
    proof (cases rule: getStatus_cases)
      case calibration
      from getSlitWidths_trace [of "[0..<MAX_SLITS]" "\<lambda>c. True" env
             "snd (getGratingWavelength env (snd ?r1))"]
        getCalibration_trace [OF calibration(4), of "\<lambda>c. True"]
      show ?thesis by auto
    qed simp_all
    with 1 2 cs(1) show ?thesis by auto
  qed
  then obtain c cs' where c: "cs = c # cs'" by (cases cs) auto
  have "isRefreshRead c"
  proof (cases "st = asynSuccess")
    case True
    with cs(2) c show ?thesis by (simp add: readTrace_def)
  next
    case False
    with cs(2) c obtain pre d where
      d: "c # cs' = pre @ [d, errorLookup env (sdkLog s @ pre) d]" "list_all isRefreshRead pre"
         "isRefreshRead d"
      by (auto simp: readTrace_def)
    then show ?thesis by (cases pre) auto
  qed
  with cs(1) c show ?thesis by blast
qed

text \<open>
  C5. Every \<open>writeInt32\<close> and every \<open>writeFloat64\<close>, whatever the parameter kind and
  whatever the forwarded SDK call returned, runs \<open>getStatus\<close> on the driver \<open>s1\<close> as it
  is after the provisional write and the forwarded call, and ends with the result of
  that refresh. (For the two kinds that index a presence array the address is inside the
  array.) The driver \<open>s1\<close> holds the provisional write when the host accepted it, and
  the SDK log of \<open>s1\<close> is the log before the write followed by the forwarded call, if
  any, and the lookup of its error text, none of them a read of the refresh. A write that
  returns has made at least one read of the refresh after these.
\<close>

theorem write_always_refreshes:
  "((reason u = SRFlipperMirrorPort \<longrightarrow>
       nat (addrOf u) < MAX_FLIPPER_MIRRORS) \<longrightarrow>
      (\<exists>st s1 fw.
         params s1 = (if hostSet env (addrOf u) (reason u)
                           asynParamInt32 = asynSuccess
                      then (params s)((addrOf u, reason u)
                                        \<mapsto> PInt v)
                      else params s)
         \<and> sdkLog s1 = sdkLog s @ fw \<and> list_all (\<lambda>c. \<not> isRefreshRead c) fw
         \<and> published s1 = published s
         \<and> writeInt32 env u v s =
             (case getStatus env s1 of
                Inl f \<Rightarrow> Inl f
              | Inr (r, s2) \<Rightarrow>
                  Inr (st, callParamCallbacks (addrOf u) s2))))
   \<and> ((reason u = SRSlitSize \<longrightarrow>
       nat (addrOf u) < MAX_SLITS) \<longrightarrow>
      (\<exists>st s1 fw.
         params s1 = (if hostSet env (addrOf u) (reason u)
                           asynParamFloat64 = asynSuccess
                      then (params s)((addrOf u, reason u)
                                        \<mapsto> PDouble w)
                      else params s)
         \<and> sdkLog s1 = sdkLog s @ fw \<and> list_all (\<lambda>c. \<not> isRefreshRead c) fw
         \<and> published s1 = published s
         \<and> writeFloat64 env u w s =
             (case getStatus env s1 of
                Inl f \<Rightarrow> Inl f
              | Inr (r, s2) \<Rightarrow>
                  Inr (st, callParamCallbacks (addrOf u) s2))))
   \<and> (writeInt32 env u v s = Inr (st, s') \<or> writeFloat64 env u w s = Inr (st, s') \<longrightarrow>
      (\<exists>fw c cs. sdkLog s' = sdkLog s @ fw @ c # cs
         \<and> list_all (\<lambda>c. \<not> isRefreshRead c) fw \<and> isRefreshRead c))"
proof (intro conjI impI)
  assume "reason u = SRFlipperMirrorPort \<longrightarrow>
            nat (addrOf u) < MAX_FLIPPER_MIRRORS"
  from forwardInt32_total [OF this] obtain st s1 where
    f: "forwardInt32 env u v s = Inr (st, s1)" by blast
  from forwardInt32_log_shape [OF f] obtain fw where
    fw: "sdkLog s1 = sdkLog s @ fw" "list_all (\<lambda>c. \<not> isRefreshRead c) fw" by blast
  have "writeInt32 env u v s =
          (case getStatus env s1 of
             Inl f \<Rightarrow> Inl f
           | Inr (r, s2) \<Rightarrow>
               Inr (st, callParamCallbacks (addrOf u) s2))"
    using f by (simp add: writeInt32_def Let_def)
  with forwardInt32_members(6,7) [OF f] fw
  show "\<exists>st s1 fw.
         params s1 = (if hostSet env (addrOf u) (reason u)
                           asynParamInt32 = asynSuccess
                      then (params s)((addrOf u, reason u)
                                        \<mapsto> PInt v)
                      else params s)
         \<and> sdkLog s1 = sdkLog s @ fw \<and> list_all (\<lambda>c. \<not> isRefreshRead c) fw
         \<and> published s1 = published s
         \<and> writeInt32 env u v s =
             (case getStatus env s1 of
                Inl f \<Rightarrow> Inl f
              | Inr (r, s2) \<Rightarrow>
                  Inr (st, callParamCallbacks (addrOf u) s2))"
    by blast
next
  assume "reason u = SRSlitSize \<longrightarrow>
            nat (addrOf u) < MAX_SLITS"
  from forwardFloat64_total [OF this] obtain st s1 where
    f: "forwardFloat64 env u w s = Inr (st, s1)" by blast
  from forwardFloat64_log_shape [OF f] obtain fw where
    fw: "sdkLog s1 = sdkLog s @ fw" "list_all (\<lambda>c. \<not> isRefreshRead c) fw" by blast
  have "writeFloat64 env u w s =
          (case getStatus env s1 of
             Inl f \<Rightarrow> Inl f
           | Inr (r, s2) \<Rightarrow>
               Inr (st, callParamCallbacks (addrOf u) s2))"
    using f by (simp add: writeFloat64_def Let_def)
  with forwardFloat64_members(6,7) [OF f] fw
  show "\<exists>st s1 fw.
         params s1 = (if hostSet env (addrOf u) (reason u)
                           asynParamFloat64 = asynSuccess
                      then (params s)((addrOf u, reason u)
                                        \<mapsto> PDouble w)
                      else params s)
         \<and> sdkLog s1 = sdkLog s @ fw \<and> list_all (\<lambda>c. \<not> isRefreshRead c) fw
         \<and> published s1 = published s
         \<and> writeFloat64 env u w s =
             (case getStatus env s1 of
                Inl f \<Rightarrow> Inl f
              | Inr (r, s2) \<Rightarrow>
                  Inr (st, callParamCallbacks (addrOf u) s2))"
    by blast
next
  assume "writeInt32 env u v s = Inr (st, s') \<or> writeFloat64 env u w s = Inr (st, s')"
  then have "\<exists>s1 r s2. (\<exists>fw. sdkLog s1 = sdkLog s @ fw \<and> list_all (\<lambda>c. \<not> isRefreshRead c) fw)
               \<and> getStatus env s1 = Inr (r, s2) \<and> s' = callParamCallbacks (addrOf u) s2"
  proof
    assume "writeInt32 env u v s = Inr (st, s')"
    then obtain s1 r s2 where
      "forwardInt32 env u v s = Inr (st, s1)" "getStatus env s1 = Inr (r, s2)"
      "s' = callParamCallbacks (addrOf u) s2"
      by (rule writeInt32_Inr)
    with forwardInt32_log_shape [of env u v s st s1] show ?thesis by blast
  next
    assume "writeFloat64 env u w s = Inr (st, s')"
    then obtain s1 r s2 where
      "forwardFloat64 env u w s = Inr (st, s1)" "getStatus env s1 = Inr (r, s2)"
      "s' = callParamCallbacks (addrOf u) s2"
      by (rule writeFloat64_Inr)
    with forwardFloat64_log_shape [of env u w s st s1] show ?thesis by blast
  qed
  then obtain s1 r s2 where
    w: "\<exists>fw. sdkLog s1 = sdkLog s @ fw \<and> list_all (\<lambda>c. \<not> isRefreshRead c) fw"
       "getStatus env s1 = Inr (r, s2)" "s' = callParamCallbacks (addrOf u) s2"
    by blast
  from w(1) obtain fw where
    fw: "sdkLog s1 = sdkLog s @ fw" "list_all (\<lambda>c. \<not> isRefreshRead c) fw" by blast
  from getStatus_first_read [OF w(2)] obtain c cs where
    "sdkLog s2 = sdkLog s1 @ c # cs" "isRefreshRead c" by blast
  with fw w(3)
  show "\<exists>fw c cs. sdkLog s' = sdkLog s @ fw @ c # cs
         \<and> list_all (\<lambda>c. \<not> isRefreshRead c) fw \<and> isRefreshRead c"
    by auto
qed

text \<open>
  The forwarded \<open>ATSpectrographSetGrating\<close> and \<open>ATSpectrographSetSlitWidth\<close> fail:
  the writes return \<open>asynError\<close>, and the refresh still runs on the driver as it is after
  the failed call; its six reads and five publications follow.
\<close>

theorem write_always_refreshes_witness:
  "(\<exists>s' s1 r s2.
       writeInt32 (demoEnv (\<lambda>c. c = ATSpectrographSetGrating 0 2) 2)
         \<lparr>reason = SRGrating, userAddr = 0\<rparr> 2 demoDriver = Inr (asynError, s')
       \<and> getStatus (demoEnv (\<lambda>c. c = ATSpectrographSetGrating 0 2) 2) s1 = Inr (r, s2)
       \<and> s' = callParamCallbacks 0 s2
       \<and> sdkLog s' = [ATSpectrographSetGrating 0 2,
                       ATSpectrographGetFunctionReturnDescription 20201,
                       ATSpectrographGetFlipperMirror 0 2, ATSpectrographGetGrating 0,
                       ATSpectrographGetWavelength 0, ATSpectrographGetSlitWidth 0 1,
                       ATSpectrographGetSlitWidth 0 2, ATSpectrographGetCalibration 0 3]
       \<and> published s' = [ParamCallbacks 0, ParamCallbacks 1, ParamCallbacks 2,
                          ParamCallbacks 3,
                          Float32ArrayCallbacks [500, 550, 600] 3 SRCalibration 0,
                          ParamCallbacks 0])
   \<and> (\<exists>s' s1 r s2.
       writeFloat64 (demoEnv (\<lambda>c. c = ATSpectrographSetSlitWidth 0 2 25) 2)
         \<lparr>reason = SRSlitSize, userAddr = 1\<rparr> 25 demoDriver = Inr (asynError, s')
       \<and> getStatus (demoEnv (\<lambda>c. c = ATSpectrographSetSlitWidth 0 2 25) 2) s1 = Inr (r, s2)
       \<and> s' = callParamCallbacks 1 s2
       \<and> sdkLog s' = [ATSpectrographSetSlitWidth 0 2 25,
                       ATSpectrographGetFunctionReturnDescription 20201,
                       ATSpectrographGetFlipperMirror 0 2, ATSpectrographGetGrating 0,
                       ATSpectrographGetWavelength 0, ATSpectrographGetSlitWidth 0 1,
                       ATSpectrographGetSlitWidth 0 2, ATSpectrographGetCalibration 0 3]
       \<and> published s' = [ParamCallbacks 0, ParamCallbacks 1, ParamCallbacks 2,
                          ParamCallbacks 3,
                          Float32ArrayCallbacks [500, 550, 600] 3 SRCalibration 0,
                          ParamCallbacks 1])"
proof (intro conjI)
  let ?E = "demoEnv (\<lambda>c. c = ATSpectrographSetGrating 0 2) 2"
  let ?u = "\<lparr>reason = SRGrating, userAddr = 0\<rparr>"
  have "\<exists>st s'. writeInt32 ?E ?u 2 demoDriver = Inr (st, s')"
    by (rule writeInt32_total) (simp_all add: demoDriver_buffer)
  then obtain st s' where r: "writeInt32 ?E ?u 2 demoDriver = Inr (st, s')" by blast
  then have e: "st = asynError"
      "sdkLog s' = [ATSpectrographSetGrating 0 2,
                       ATSpectrographGetFunctionReturnDescription 20201,
                       ATSpectrographGetFlipperMirror 0 2, ATSpectrographGetGrating 0,
                       ATSpectrographGetWavelength 0, ATSpectrographGetSlitWidth 0 1,
                       ATSpectrographGetSlitWidth 0 2, ATSpectrographGetCalibration 0 3]"
      "published s' = [ParamCallbacks 0, ParamCallbacks 1, ParamCallbacks 2,
                          ParamCallbacks 3,
                          Float32ArrayCallbacks [500, 550, 600] 3 SRCalibration 0,
                          ParamCallbacks 0]"
    by (auto simp: write_evals evals)
  have p: "reason ?u = SRFlipperMirrorPort \<longrightarrow> nat (addrOf ?u) < MAX_FLIPPER_MIRRORS"
    by simp
  from write_always_refreshes
         [where env = "?E" and u = "?u" and v = 2 and s = demoDriver, THEN conjunct1,
          THEN mp, OF p]
  obtain st1 s1 where
    "writeInt32 ?E ?u 2 demoDriver =
       (case getStatus ?E s1 of Inl f \<Rightarrow> Inl f
        | Inr (r, s2) \<Rightarrow> Inr (st1, callParamCallbacks (addrOf ?u) s2))"
    by blast
  with r obtain rr s2 where "getStatus ?E s1 = Inr (rr, s2)" "s' = callParamCallbacks 0 s2"
    by (auto split: sum.splits)
  with r e show "\<exists>s' s1 r s2.
       writeInt32 ?E ?u 2 demoDriver = Inr (asynError, s')
       \<and> getStatus ?E s1 = Inr (r, s2)
       \<and> s' = callParamCallbacks 0 s2
       \<and> sdkLog s' = [ATSpectrographSetGrating 0 2,
                       ATSpectrographGetFunctionReturnDescription 20201,
                       ATSpectrographGetFlipperMirror 0 2, ATSpectrographGetGrating 0,
                       ATSpectrographGetWavelength 0, ATSpectrographGetSlitWidth 0 1,
                       ATSpectrographGetSlitWidth 0 2, ATSpectrographGetCalibration 0 3]
       \<and> published s' = [ParamCallbacks 0, ParamCallbacks 1, ParamCallbacks 2,
                          ParamCallbacks 3,
                          Float32ArrayCallbacks [500, 550, 600] 3 SRCalibration 0,
                          ParamCallbacks 0]"
    by blast
next
  let ?E = "demoEnv (\<lambda>c. c = ATSpectrographSetSlitWidth 0 2 25) 2"
  let ?u = "\<lparr>reason = SRSlitSize, userAddr = 1\<rparr>"
  have "\<exists>st s'. writeFloat64 ?E ?u 25 demoDriver = Inr (st, s')"
    by (rule writeFloat64_total) (simp_all add: demoDriver_buffer MAX_SLITS_def)
  then obtain st s' where r: "writeFloat64 ?E ?u 25 demoDriver = Inr (st, s')" by blast
  then have e: "st = asynError"
      "sdkLog s' = [ATSpectrographSetSlitWidth 0 2 25,
                       ATSpectrographGetFunctionReturnDescription 20201,
                       ATSpectrographGetFlipperMirror 0 2, ATSpectrographGetGrating 0,
                       ATSpectrographGetWavelength 0, ATSpectrographGetSlitWidth 0 1,
                       ATSpectrographGetSlitWidth 0 2, ATSpectrographGetCalibration 0 3]"
      "published s' = [ParamCallbacks 0, ParamCallbacks 1, ParamCallbacks 2,
                          ParamCallbacks 3,
                          Float32ArrayCallbacks [500, 550, 600] 3 SRCalibration 0,
                          ParamCallbacks 1]"
    by (auto simp: write_evals evals)
  have p: "reason ?u = SRSlitSize \<longrightarrow> nat (addrOf ?u) < MAX_SLITS"
    by (simp add: MAX_SLITS_def)
  from write_always_refreshes
         [where env = "?E" and u = "?u" and w = 25 and s = demoDriver, THEN conjunct2,
          THEN conjunct1, THEN mp, OF p]
  obtain st1 s1 where
    "writeFloat64 ?E ?u 25 demoDriver =
       (case getStatus ?E s1 of Inl f \<Rightarrow> Inl f
        | Inr (r, s2) \<Rightarrow> Inr (st1, callParamCallbacks (addrOf ?u) s2))"
    by blast
  with r obtain rr s2 where "getStatus ?E s1 = Inr (rr, s2)" "s' = callParamCallbacks 1 s2"
    by (auto split: sum.splits)
  with r e show "\<exists>s' s1 r s2.
       writeFloat64 ?E ?u 25 demoDriver = Inr (asynError, s')
       \<and> getStatus ?E s1 = Inr (r, s2)
       \<and> s' = callParamCallbacks 1 s2
       \<and> sdkLog s' = [ATSpectrographSetSlitWidth 0 2 25,
                       ATSpectrographGetFunctionReturnDescription 20201,
                       ATSpectrographGetFlipperMirror 0 2, ATSpectrographGetGrating 0,
                       ATSpectrographGetWavelength 0, ATSpectrographGetSlitWidth 0 1,
                       ATSpectrographGetSlitWidth 0 2, ATSpectrographGetCalibration 0 3]
       \<and> published s' = [ParamCallbacks 0, ParamCallbacks 1, ParamCallbacks 2,
                          ParamCallbacks 3,
                          Float32ArrayCallbacks [500, 550, 600] 3 SRCalibration 0,
                          ParamCallbacks 1]"
    by blast
qed

subsection \<open>C1: a port written to an absent flipper mirror\<close>

text \<open>
  C1, as stated: for a flipper-mirror address (0 or 1) whose presence flag is false, a
  \<open>writeInt32\<close> of the port leaves the cached port of that address unchanged and makes
  no SDK set-flipper-mirror call. The second half holds; the first does not: the
  provisional \<open>setIntegerParam\<close> of line 340 stores the written value, and the refresh
  skips an absent mirror, so the value stays. Mirror 1 (address 0) of \<open>demoDriver\<close> is
  absent and port 1 is cached for it; after a write of port 2 the cached port is 2.
\<close>

theorem mirror_port_cache_changes:
  "\<not> flipperMirrorIsPresent demoDriver 0
   \<and> params demoDriver (0, SRFlipperMirrorPort) = Some (PInt 1)
   \<and> writeInt32 (demoEnv (\<lambda>c. False) 2) \<lparr>reason = SRFlipperMirrorPort, userAddr = 0\<rparr> 2
        demoDriver \<noteq> Inl OutOfBounds
   \<and> params (snd (projr (writeInt32 (demoEnv (\<lambda>c. False) 2)
                            \<lparr>reason = SRFlipperMirrorPort, userAddr = 0\<rparr> 2 demoDriver)))
        (0, SRFlipperMirrorPort) = Some (PInt 2)"
proof -
  let ?E = "demoEnv (\<lambda>c. False) 2"
  let ?u = "\<lparr>reason = SRFlipperMirrorPort, userAddr = 0\<rparr>"
  have "\<exists>st s'. writeInt32 ?E ?u 2 demoDriver = Inr (st, s')"
    by (rule writeInt32_total) (simp_all add: demoDriver_buffer MAX_FLIPPER_MIRRORS_def)
  then obtain st s' where r: "writeInt32 ?E ?u 2 demoDriver = Inr (st, s')" by blast
  then have "params s' (0, SRFlipperMirrorPort) = Some (PInt 2)"
    by (auto simp: write_evals evals)
  with r show ?thesis
    by (simp add: demoDriver_def)
qed

text \<open>
  C1, amended: for a flipper-mirror address (0 or 1) whose presence flag is false, a
  \<open>writeInt32\<close> of the port makes no SDK set-flipper-mirror call (the calls it adds to
  the log are those of the refresh), and the port cached for that address afterwards is
  the value written when the host accepted the provisional write, and the value cached
  before otherwise.
\<close>

theorem absent_mirror_write:
  assumes "a = 0 \<or> a = 1" and "\<not> flipperMirrorIsPresent s (nat a)"
    and "writeInt32 env \<lparr>reason = SRFlipperMirrorPort, userAddr = a\<rparr> v s = Inr (st, s')"
  shows "(\<exists>cs. sdkLog s' = sdkLog s @ cs
            \<and> (\<forall>i j p. ATSpectrographSetFlipperMirror i j p \<notin> set cs))
       \<and> params s' (a, SRFlipperMirrorPort) =
           (if hostSet env a SRFlipperMirrorPort asynParamInt32 = asynSuccess
            then Some (PInt v) else params s (a, SRFlipperMirrorPort))"
proof -
  let ?u = "\<lparr>reason = SRFlipperMirrorPort, userAddr = a\<rparr>"
  have a: "addrOf ?u = a" using assms(1) by auto
  from assms(3) obtain s1 r s2 where
    w: "forwardInt32 env ?u v s = Inr (st, s1)" "getStatus env s1 = Inr (r, s2)"
       "s' = callParamCallbacks (addrOf ?u) s2"
    by (rule writeInt32_Inr)
  from forwardInt32_log [OF w(1)] assms(2) a have l1: "sdkLog s1 = sdkLog s"
    by simp
  from getStatus_trace [OF w(2), of isRefreshRead] obtain cs where
    cs: "sdkLog s2 = sdkLog s1 @ cs" "readTrace env isRefreshRead (sdkLog s1) r cs"
    by blast
  have "\<forall>i j p. ATSpectrographSetFlipperMirror i j p \<notin> set cs"
    using readTrace_calls [OF cs(2)] by fastforce
  with cs(1) l1 w(3)
  have 1: "\<exists>cs. sdkLog s' = sdkLog s @ cs
            \<and> (\<forall>i j p. ATSpectrographSetFlipperMirror i j p \<notin> set cs)"
    by auto
  have "\<forall>i<MAX_FLIPPER_MIRRORS. flipperMirrorIsPresent s1 i
          \<longrightarrow> (a, SRFlipperMirrorPort) \<noteq> (int i, SRFlipperMirrorPort)"
    using assms(1,2) forwardInt32_members(3) [OF w(1)] by auto
  from getStatus_params [OF w(2) this] have "params s2 (a, SRFlipperMirrorPort)
        = params s1 (a, SRFlipperMirrorPort)"
    by simp
  with forwardInt32_members(7) [OF w(1)] a w(3)
  have 2: "params s' (a, SRFlipperMirrorPort) =
           (if hostSet env a SRFlipperMirrorPort asynParamInt32 = asynSuccess
            then Some (PInt v) else params s (a, SRFlipperMirrorPort))"
    by simp
  from 1 2 show ?thesis by blast
qed

theorem absent_mirror_write_witness:
  "\<exists>st s'. writeInt32 (demoEnv (\<lambda>c. False) 2) \<lparr>reason = SRFlipperMirrorPort, userAddr = 0\<rparr> 2
              demoDriver = Inr (st, s')
     \<and> (\<exists>cs. sdkLog s' = sdkLog demoDriver @ cs
            \<and> (\<forall>i j p. ATSpectrographSetFlipperMirror i j p \<notin> set cs))
     \<and> params s' (0, SRFlipperMirrorPort) = Some (PInt 2)"
proof -
  let ?E = "demoEnv (\<lambda>c. False) 2"
  let ?u = "\<lparr>reason = SRFlipperMirrorPort, userAddr = 0\<rparr>"
  have "\<exists>st s'. writeInt32 ?E ?u 2 demoDriver = Inr (st, s')"
    by (rule writeInt32_total) (simp_all add: demoDriver_buffer MAX_FLIPPER_MIRRORS_def)
  then obtain st s' where r: "writeInt32 ?E ?u 2 demoDriver = Inr (st, s')" by blast
  have h: "(0::int) = 0 \<or> (0::int) = 1" "\<not> flipperMirrorIsPresent demoDriver (nat 0)"
    by (simp_all add: demoDriver_def)
  have "hostSet ?E 0 SRFlipperMirrorPort asynParamInt32 = asynSuccess"
    by (simp add: demoEnv_def demoHost_def MAX_ADDR_def)
  with absent_mirror_write [OF h r] r show ?thesis
    by auto
qed

subsection \<open>C6: a width written to an absent slit\<close>

lemma getSlitWidths_absent_zero:
  assumes "sorted_wrt (<) is" "a \<in> set is" "\<not> slitIsPresent s a"
    and "hostSet env (int a) SRSlitSize asynParamFloat64 = asynSuccess"
    and "sdkLog (snd (getSlitWidths env is s)) = sdkLog s @ cs"
    and "succeeded env (readsBeforeSlit (int a)) (sdkLog s) cs"
  shows "params (snd (getSlitWidths env is s)) (int a, SRSlitSize) = Some (PDouble 0)"
  using assms
proof (induction "is" arbitrary: s cs)
  case Nil
  then show ?case by simp
next
  case (Cons i "is")
  let ?s0 = "snd (setDoubleParam env (int i) SRSlitSize 0 s)"
  let ?c = "ATSpectrographGetSlitWidth (shamrockId s) (int i + 1)"
  from Cons.prems(1) have sorted: "sorted_wrt (<) is" and less: "\<forall>j\<in>set is. i < j"
    by simp_all
  show ?case
  proof (cases "i = a")
    case True
    with less have "\<forall>j\<in>set is. (int a, SRSlitSize) \<noteq> (int j, SRSlitSize)"
      by auto
    from getSlitWidths_params [OF this] True Cons.prems(3,4) show ?thesis
      by (simp add: Let_def)
  next
    case False
    with Cons.prems(2) less have a: "a \<in> set is" "i < a" by auto
    show ?thesis
    proof (cases "slitIsPresent s i")
      case False
      from Cons.IH [of ?s0 cs] sorted a(1) Cons.prems(3-6) False show ?thesis
        by (simp add: Let_def)
    next
      case present: True
      show ?thesis
      proof (cases "callOk env (sdkLog s) ?c")
        case False
        with present Cons.prems(5) have "cs = [?c, errorLookup env (sdkLog s) ?c]"
          by (simp add: Let_def case_prod_beta callOk_def errorLookup_def)
        with Cons.prems(6) a(2) False show ?thesis by simp
      next
        case True
        let ?s2 = "snd (setDoubleParam env (int i) SRSlitSize
                          (fval (devReply env (sdkLog s) ?c))
                          (snd (checkError env (rcode (devReply env (sdkLog s) ?c))
                                 (snd (sdkCall env ?c ?s0)))))"
        have eq: "getSlitWidths env (i # is) s = getSlitWidths env is ?s2"
          using True present by (simp add: case_prod_beta callOk_def Let_def)
        have l: "sdkLog ?s2 = sdkLog s @ [?c]"
          using True by (simp add: callOk_def)
        from getSlitWidths_trace [of "is" "\<lambda>c. True" env ?s2] obtain cs' where
          cs': "sdkLog (snd (getSlitWidths env is ?s2)) = sdkLog ?s2 @ cs'"
          by auto
        with Cons.prems(5) eq l have cs: "cs = ?c # cs'" by simp
        with Cons.prems(6) True have "succeeded env (readsBeforeSlit (int a)) (sdkLog ?s2) cs'"
          by (simp add: callOk_def)
        moreover have "\<not> slitIsPresent ?s2 a" using Cons.prems(3) by simp
        ultimately have "params (snd (getSlitWidths env is ?s2)) (int a, SRSlitSize)
                           = Some (PDouble 0)"
          using Cons.IH [of ?s2 cs'] sorted a(1) Cons.prems(4) cs' by blast
        with eq show ?thesis by simp
      qed
    qed
  qed
qed

lemma getStatus_absent_slit_zero:
  assumes "getStatus env s = Inr (st, s')" "a < MAX_SLITS" "\<not> slitIsPresent s a"
    and "hostSet env (int a) SRSlitSize asynParamFloat64 = asynSuccess"
    and "sdkLog s' = sdkLog s @ cs"
    and "succeeded env (readsBeforeSlit (int a)) (sdkLog s) cs"
  shows "params s' (int a, SRSlitSize) = Some (PDouble 0)"
proof -
  let ?R = "readsBeforeSlit (int a)"
  let ?r1 = "getFlipperStatus env [0..<MAX_FLIPPER_MIRRORS] s"
  let ?r2 = "getGratingWavelength env (snd ?r1)"
  let ?r3 = "getSlitWidths env [0..<MAX_SLITS] (snd ?r2)"
  obtain cs1 where 1: "sdkLog (snd ?r1) = sdkLog s @ cs1" "readTrace env ?R (sdkLog s) (fst ?r1) cs1"
    using getFlipperStatus_trace [of ?R env "[0..<MAX_FLIPPER_MIRRORS]" s] by auto
  obtain cs2 where 2: "sdkLog (snd ?r2) = sdkLog (snd ?r1) @ cs2"
      "readTrace env ?R (sdkLog (snd ?r1)) (fst ?r2) cs2"
    using getGratingWavelength_trace [of ?R env "snd ?r1"] by auto
  obtain cs3 where 3: "sdkLog (snd ?r3) = sdkLog (snd ?r2) @ cs3"
    using getSlitWidths_trace [of "[0..<MAX_SLITS]" "\<lambda>c. True" env "snd ?r2"] by auto
  have in_range: "sorted_wrt (<) [0..<MAX_SLITS]" "a \<in> set [0..<MAX_SLITS]"
    using assms(2) by simp_all
  have absent: "\<not> slitIsPresent (snd ?r2) a"
    using assms(3) by simp
  have zero: "succeeded env ?R (sdkLog (snd ?r2)) cs3
                \<Longrightarrow> params (snd ?r3) (int a, SRSlitSize) = Some (PDouble 0)"
    using getSlitWidths_absent_zero [OF in_range absent assms(4) 3] .
  from assms(1) show ?thesis
  proof (cases rule: getStatus_cases)
    case mirror
    with 1 readTrace_status [OF 1(2)] assms(5) have "readTrace env ?R (sdkLog s) asynError cs"
      by auto
    with assms(6) show ?thesis by (auto dest: readTrace_error_not_succeeded)
  next
    case grating
    with 1 2 assms(5) have c: "cs = cs1 @ cs2" by simp
    from grating 2 readTrace_status [OF 2(2)]
    have "readTrace env ?R (sdkLog s @ cs1) asynError cs2"
      using 1(1) by auto
    with assms(6) c show ?thesis
      by (auto simp: succeeded_append dest: readTrace_error_not_succeeded)
  next
    case slit
    with 1 2 3 assms(5) have c: "cs = cs1 @ cs2 @ cs3" by simp
    with assms(6) 1 2 have "succeeded env ?R (sdkLog (snd ?r2)) cs3"
      by (simp add: succeeded_append)
    with zero slit show ?thesis by simp
  next
    case calibration
    from getCalibration_trace [OF calibration(4), of "\<lambda>c. True"] obtain cs4 where
      4: "sdkLog s' = sdkLog (snd ?r3) @ cs4" by auto
    with 1 2 3 assms(5) have c: "cs = cs1 @ cs2 @ cs3 @ cs4" by simp
    with assms(6) 1 2 have "succeeded env ?R (sdkLog (snd ?r2)) cs3"
      by (simp add: succeeded_append)
    with zero have "params (snd ?r3) (int a, SRSlitSize) = Some (PDouble 0)" .
    with getCalibration_params [OF calibration(4), of "(int a, SRSlitSize)"] show ?thesis
      by simp
  qed
qed

text \<open>
  C6. For a slit address (0 to 3) whose presence flag is false, a \<open>writeFloat64\<close> of the
  slit width makes no SDK set-slit-width call, and once the refresh it runs has come to
  that slit (no read before that step failed: mirror ports, grating, wavelength, widths
  of the slits at lower addresses) the width cached for the address is 0, the host
  accepting the write of the width.
\<close>

theorem absent_slit_write:
  assumes "0 \<le> a" "a < int MAX_SLITS" and "\<not> slitIsPresent s (nat a)"
    and "hostSet env a SRSlitSize asynParamFloat64 = asynSuccess"
    and "writeFloat64 env \<lparr>reason = SRSlitSize, userAddr = a\<rparr> v s = Inr (st, s')"
  shows "\<exists>cs. sdkLog s' = sdkLog s @ cs
           \<and> (\<forall>i j w. ATSpectrographSetSlitWidth i j w \<notin> set cs)
           \<and> (succeeded env (readsBeforeSlit a) (sdkLog s) cs
                \<longrightarrow> params s' (a, SRSlitSize) = Some (PDouble 0))"
proof -
  let ?u = "\<lparr>reason = SRSlitSize, userAddr = a\<rparr>"
  have a: "addrOf ?u = a" using assms(1) by auto
  from assms(5) obtain s1 r s2 where
    w: "forwardFloat64 env ?u v s = Inr (st, s1)" "getStatus env s1 = Inr (r, s2)"
       "s' = callParamCallbacks (addrOf ?u) s2"
    by (rule writeFloat64_Inr)
  from forwardFloat64_log [OF w(1)] assms(3) a have l1: "sdkLog s1 = sdkLog s"
    by simp
  from getStatus_trace [OF w(2), of isRefreshRead] obtain cs where
    cs: "sdkLog s2 = sdkLog s1 @ cs" "readTrace env isRefreshRead (sdkLog s1) r cs"
    by blast
  have no_set: "\<forall>i j w. ATSpectrographSetSlitWidth i j w \<notin> set cs"
    using readTrace_calls [OF cs(2)] by fastforce
  have absent: "nat a < MAX_SLITS" "\<not> slitIsPresent s1 (nat a)"
    "hostSet env (int (nat a)) SRSlitSize asynParamFloat64 = asynSuccess"
    using assms(1-4) forwardFloat64_members(2) [OF w(1)] by simp_all
  have "succeeded env (readsBeforeSlit a) (sdkLog s) cs
          \<longrightarrow> params s' (a, SRSlitSize) = Some (PDouble 0)"
  proof
    assume "succeeded env (readsBeforeSlit a) (sdkLog s) cs"
    then have "succeeded env (readsBeforeSlit (int (nat a))) (sdkLog s1) cs"
      using assms(1) l1 by simp
    from getStatus_absent_slit_zero [OF w(2) absent cs(1) this] w(3) assms(1)
    show "params s' (a, SRSlitSize) = Some (PDouble 0)" by simp
  qed
  with cs(1) l1 w(3) no_set show ?thesis by auto
qed

theorem absent_slit_write_witness:
  "\<exists>st s'. writeFloat64 (demoEnv (\<lambda>c. False) 2) \<lparr>reason = SRSlitSize, userAddr = 2\<rparr> 25
              demoDriver = Inr (st, s')
     \<and> sdkLog s' = [ATSpectrographGetFlipperMirror 0 2, ATSpectrographGetGrating 0,
                     ATSpectrographGetWavelength 0, ATSpectrographGetSlitWidth 0 1,
                     ATSpectrographGetSlitWidth 0 2, ATSpectrographGetCalibration 0 3]
     \<and> params s' (2, SRSlitSize) = Some (PDouble 0)"
proof -
  let ?E = "demoEnv (\<lambda>c. False) 2"
  let ?u = "\<lparr>reason = SRSlitSize, userAddr = 2\<rparr>"
  let ?cs = "[ATSpectrographGetFlipperMirror 0 2, ATSpectrographGetGrating 0,
              ATSpectrographGetWavelength 0, ATSpectrographGetSlitWidth 0 1,
              ATSpectrographGetSlitWidth 0 2, ATSpectrographGetCalibration 0 3]"
  have "\<exists>st s'. writeFloat64 ?E ?u 25 demoDriver = Inr (st, s')"
    by (rule writeFloat64_total) (simp_all add: demoDriver_buffer MAX_SLITS_def)
  then obtain st s' where r: "writeFloat64 ?E ?u 25 demoDriver = Inr (st, s')" by blast
  then have l: "sdkLog s' = ?cs"
    by (auto simp: write_evals evals)
  have h: "(0::int) \<le> 2" "(2::int) < int MAX_SLITS" "\<not> slitIsPresent demoDriver (nat 2)"
    "hostSet ?E 2 SRSlitSize asynParamFloat64 = asynSuccess"
    by (simp_all add: demoDriver_def MAX_SLITS_def demoEnv_def demoHost_def MAX_ADDR_def)
  have ok: "succeeded ?E (readsBeforeSlit 2) [] ?cs"
    by (simp add: callOk_def demoEnv_def demoReply_def)
  from absent_slit_write [OF h r] l ok
  have "params s' (2, SRSlitSize) = Some (PDouble 0)"
    by (auto simp: demoDriver_def)
  with r l show ?thesis by blast
qed

subsection \<open>C2: the grating-exists flags the constructor caches\<close>

lemma upto_numerals: "[1..2] = [1, 2]" "[2..3 - 1] = [2]"
  by (simp_all add: upto.simps)

text \<open>
  C2. With \<open>N\<close> gratings reported, the flag should be cached as true at addresses
  \<open>1..N\<close> and as false at the addresses beyond \<open>N\<close> up to 3. The first loop (lines
  223-229) writes 1 at addresses \<open>1..N\<close>; the second (lines 230-232) starts at \<open>i = N\<close>,
  not \<open>N + 1\<close>, and stops before \<open>MAX_GRATINGS\<close>. With two gratings it overwrites the
  flag of grating 2 with 0 and never writes address 3.
\<close>

theorem ctor_two_gratings_flags:
  "\<exists>s'. shamrock_ctor (demoEnv (\<lambda>c. False) 2) 0 ''shamrock.ini'' demoMem = Inr s'
        \<and> params s' (0, SRNumGratings) = Some (PInt 2)
        \<and> params s' (1, SRGratingExists) = Some (PInt 1)
        \<and> params s' (2, SRGratingExists) = Some (PInt 0)
        \<and> params s' (3, SRGratingExists) = None"
proof -
  obtain r where r: "shamrock_ctor (demoEnv (\<lambda>c. False) 2) 0 ''shamrock.ini'' demoMem = r"
    by simp
  then have "case r of Inl f \<Rightarrow> False
             | Inr s' \<Rightarrow> params s' (0, SRNumGratings) = Some (PInt 2)
                 \<and> params s' (1, SRGratingExists) = Some (PInt 1)
                 \<and> params s' (2, SRGratingExists) = Some (PInt 0)
                 \<and> params s' (3, SRGratingExists) = None"
    by (auto simp: shamrock_ctor_def ctorPixels_def ctorDiscover_def evals MAX_GRATINGS_def
          demoMem_def upto_numerals)
  with r show ?thesis
    by (cases r) auto
qed

end
